theory Spec2Isabelle
  imports Complex_Main "HOL-Library.Sublist" "HOL-Library.Log_Nat"
begin


section \<open>Python values: errors, strings, numbers\<close>

text \<open>
  Exceptions are values. A Python \<open>str\<close> is modelled as an Isabelle \<open>string\<close>, one
  \<open>char\<close> per code point below 256; Python ints are \<open>int\<close>; Python floats are IEEE
  binary64 values (section on floats below).
\<close>

datatype error =
    IOError string
  | IndexError
  | KeyError string
  | ValueError
  | AttributeError
  | ZeroDivisionError
  | OverflowError
  | AssertionError

definition is_digit :: "char \<Rightarrow> bool" where
  "is_digit c = (c \<in> set ''0123456789'')"

definition digit_val :: "char \<Rightarrow> int" where
  "digit_val c = of_char c - 48"

definition int_of_digits :: "string \<Rightarrow> int" where
  "int_of_digits ds = foldl (\<lambda>a c. 10 * a + digit_val c) 0 ds"

fun contains :: "string \<Rightarrow> string \<Rightarrow> bool" where
  \<comment> \<open>\<open>sub in s\<close>\<close>
  "contains sub [] = (sub = [])"
| "contains sub (c # cs) = (prefix sub (c # cs) \<or> contains sub cs)"

definition endswith :: "string \<Rightarrow> string \<Rightarrow> bool" where
  "endswith s suf = suffix suf s"

definition slice :: "'a list \<Rightarrow> nat \<Rightarrow> nat \<Rightarrow> 'a list" where
  \<comment> \<open>\<open>s[a:b]\<close> for non-negative bounds\<close>
  "slice s a b = take (b - a) (drop a s)"

fun split_chr :: "char \<Rightarrow> string \<Rightarrow> string list" where
  \<comment> \<open>\<open>s.split(sep)\<close> for a separator of one character\<close>
  "split_chr sep [] = [[]]"
| "split_chr sep (c # cs) =
     (if c = sep then [] # split_chr sep cs
      else (case split_chr sep cs of [] \<Rightarrow> [[c]] | x # xs \<Rightarrow> (c # x) # xs))"

definition index_or_raise :: "'a list \<Rightarrow> nat \<Rightarrow> error + 'a" where
  \<comment> \<open>\<open>xs[i]\<close> for a non-negative index\<close>
  "index_or_raise xs i = (if i < length xs then Inr (xs ! i) else Inl IndexError)"

definition is_linebreak :: "char \<Rightarrow> bool" where
  \<comment> \<open>the line boundaries of \<open>str.splitlines\<close> below code point 256\<close>
  "is_linebreak c = (c \<in> set [CHR 0x0A, CHR 0x0B, CHR 0x0C, CHR 0x0D, CHR 0x1C, CHR 0x1D, CHR 0x1E, CHR 0x85])"

fun splitlines_acc :: "string \<Rightarrow> string \<Rightarrow> string list" where
  "splitlines_acc cur [] = (if cur = [] then [] else [rev cur])"
| "splitlines_acc cur [c] = (if is_linebreak c then [rev cur] else [rev (c # cur)])"
| "splitlines_acc cur (c # d # cs) =
     (if c = CHR 0x0D \<and> d = CHR 0x0A then rev cur # splitlines_acc [] cs
      else if is_linebreak c then rev cur # splitlines_acc [] (d # cs)
      else splitlines_acc (c # cur) (d # cs))"

definition splitlines :: "string \<Rightarrow> string list" where
  "splitlines s = splitlines_acc [] s"

definition is_space :: "char \<Rightarrow> bool" where
  \<comment> \<open>the whitespace that \<open>int\<close> and \<open>float\<close> strip, below code point 256\<close>
  "is_space c = (c \<in> set [CHR 0x09, CHR 0x0A, CHR 0x0B, CHR 0x0C, CHR 0x0D,
                             CHR 0x1C, CHR 0x1D, CHR 0x1E, CHR 0x1F, CHR 0x20, CHR 0x85, CHR 0xA0])"

definition strip :: "string \<Rightarrow> string" where
  "strip s = rev (dropWhile is_space (rev (dropWhile is_space s)))"

fun digitpart_ok :: "string \<Rightarrow> bool" where
  \<comment> \<open>\<open>digit (["_"] digit)*\<close>: digits, single underscores only between digits\<close>
  "digitpart_ok [] = False"
| "digitpart_ok [c] = is_digit c"
| "digitpart_ok (c # d # cs) =
     (is_digit c \<and> (if d = CHR ''_'' then digitpart_ok cs else digitpart_ok (d # cs)))"

definition digitpart :: "string \<Rightarrow> string option" where
  \<comment> \<open>the digits of a well-formed digit part\<close>
  "digitpart s = (if digitpart_ok s then Some (filter is_digit s) else None)"

definition split_sign :: "string \<Rightarrow> bool \<times> string" where
  \<comment> \<open>an optional leading sign: (negative, rest)\<close>
  "split_sign s =
     (case s of
        c # cs \<Rightarrow> if c = CHR ''-'' then (True, cs) else if c = CHR ''+'' then (False, cs) else (False, s)
      | [] \<Rightarrow> (False, s))"

definition int_max_str_digits :: int where
  \<comment> \<open>the interpreter's default limit on the number of digits that \<open>int\<close> converts\<close>
  "int_max_str_digits = 4300"

definition py_int :: "string \<Rightarrow> error + int" where
  \<comment> \<open>\<open>int(s)\<close> in base 10: a string with more digits than the limit is refused\<close>
  "py_int s =
     (let (neg, body) = split_sign (strip s)
      in case digitpart body of
           None \<Rightarrow> Inl ValueError
         | Some ds \<Rightarrow>
             if int_max_str_digits < int (length ds) then Inl ValueError
             else Inr (if neg then - int_of_digits ds else int_of_digits ds))"

section \<open>Python floats\<close>

text \<open>
  A float is an IEEE binary64 value: a finite value (a rational that is representable),
  an infinity or a NaN. The sign of zero is not kept: nothing in the two files observes
  it. \<open>round_double\<close> rounds a rational to the nearest representable value, ties to even,
  with gradual underflow and overflow to infinity; every arithmetic operation is the
  exact operation followed by this rounding.
\<close>

datatype pyfloat = Fin rat | PInf | NInf | NaN

definition pow2 :: "int \<Rightarrow> rat" where
  "pow2 e = 2 powi e"

definition ilog2 :: "rat \<Rightarrow> int" where
  \<comment> \<open>for \<open>x \<noteq> 0\<close>: the exponent \<open>k\<close> with \<open>2^k \<le> |x| < 2^(k+1)\<close>\<close>
  "ilog2 x =
     (let (p, q) = quotient_of \<bar>x\<bar>; d = bitlen p - bitlen q
      in if pow2 d \<le> \<bar>x\<bar> then d else d - 1)"

definition round_half_even :: "rat \<Rightarrow> int" where
  "round_half_even x =
     (let f = \<lfloor>x\<rfloor>; d = x - of_int f
      in if d < 1 / 2 then f else if 1 / 2 < d then f + 1 else if even f then f else f + 1)"

definition round_double :: "rat \<Rightarrow> pyfloat" where
  \<comment> \<open>53 significant bits, least exponent -1074; a rounded value of \<open>2^1024\<close> or more
      overflows\<close>
  "round_double x =
     (if x = 0 then Fin 0
      else let e = max (ilog2 x - 52) (- 1074);
               m = round_half_even (\<bar>x\<bar> / pow2 e);
               y = of_int m * pow2 e
           in if 971 < e \<or> (e = 971 \<and> 2 ^ 53 \<le> m) then (if 0 < x then PInf else NInf)
              else Fin (if 0 < x then y else - y))"

definition truthy :: "pyfloat \<Rightarrow> bool" where
  \<comment> \<open>\<open>bool(x)\<close>: only zero is falsy\<close>
  "truthy v = (v \<noteq> Fin 0)"

definition feq :: "pyfloat \<Rightarrow> pyfloat \<Rightarrow> bool" where
  \<comment> \<open>\<open>a == b\<close>\<close>
  "feq a b = (a \<noteq> NaN \<and> a = b)"

definition fne :: "pyfloat \<Rightarrow> pyfloat \<Rightarrow> bool" where
  \<comment> \<open>\<open>a != b\<close>\<close>
  "fne a b = (\<not> feq a b)"

fun flt :: "pyfloat \<Rightarrow> pyfloat \<Rightarrow> bool" where
  \<comment> \<open>\<open>a < b\<close>\<close>
  "flt NaN _ = False"
| "flt _ NaN = False"
| "flt (Fin a) (Fin b) = (a < b)"
| "flt (Fin _) PInf = True"
| "flt NInf (Fin _) = True"
| "flt NInf PInf = True"
| "flt _ _ = False"

definition fle :: "pyfloat \<Rightarrow> pyfloat \<Rightarrow> bool" where
  \<comment> \<open>\<open>a <= b\<close>\<close>
  "fle a b = (flt a b \<or> feq a b)"

fun fabs :: "pyfloat \<Rightarrow> pyfloat" where
  "fabs (Fin a) = Fin \<bar>a\<bar>"
| "fabs PInf = PInf"
| "fabs NInf = PInf"
| "fabs NaN = NaN"

fun fsign :: "pyfloat \<Rightarrow> int" where
  "fsign (Fin a) = (if 0 < a then 1 else if a < 0 then - 1 else 0)"
| "fsign PInf = 1"
| "fsign NInf = - 1"
| "fsign NaN = 0"

fun fsub :: "pyfloat \<Rightarrow> pyfloat \<Rightarrow> pyfloat" where
  \<comment> \<open>\<open>a - b\<close>\<close>
  "fsub NaN _ = NaN"
| "fsub _ NaN = NaN"
| "fsub (Fin a) (Fin b) = round_double (a - b)"
| "fsub (Fin _) PInf = NInf"
| "fsub (Fin _) NInf = PInf"
| "fsub PInf PInf = NaN"
| "fsub NInf NInf = NaN"
| "fsub PInf _ = PInf"
| "fsub NInf _ = NInf"

fun fadd :: "pyfloat \<Rightarrow> pyfloat \<Rightarrow> pyfloat" where
  \<comment> \<open>\<open>a + b\<close>\<close>
  "fadd NaN _ = NaN"
| "fadd _ NaN = NaN"
| "fadd (Fin a) (Fin b) = round_double (a + b)"
| "fadd (Fin _) b = b"
| "fadd PInf NInf = NaN"
| "fadd NInf PInf = NaN"
| "fadd a _ = a"

fun fmul :: "pyfloat \<Rightarrow> pyfloat \<Rightarrow> pyfloat" where
  \<comment> \<open>\<open>a * b\<close>\<close>
  "fmul NaN _ = NaN"
| "fmul _ NaN = NaN"
| "fmul (Fin a) (Fin b) = round_double (a * b)"
| "fmul a b = (if fsign a * fsign b = 0 then NaN else if 0 < fsign a * fsign b then PInf else NInf)"

fun fdiv :: "pyfloat \<Rightarrow> pyfloat \<Rightarrow> pyfloat" where
  \<comment> \<open>the quotient of \<open>a / b\<close> for a divisor that is not zero\<close>
  "fdiv NaN _ = NaN"
| "fdiv _ NaN = NaN"
| "fdiv (Fin a) (Fin b) = round_double (a / b)"
| "fdiv (Fin _) _ = Fin 0"
| "fdiv a (Fin b) = (if 0 < fsign a * fsign (Fin b) then PInf else NInf)"
| "fdiv _ _ = NaN"

definition py_truediv :: "pyfloat \<Rightarrow> pyfloat \<Rightarrow> error + pyfloat" where
  \<comment> \<open>\<open>a / b\<close> on floats\<close>
  "py_truediv a b = (if b = Fin 0 then Inl ZeroDivisionError else Inr (fdiv a b))"

definition float_of_int :: "int \<Rightarrow> error + pyfloat" where
  \<comment> \<open>the conversion of an int operand of a float operation\<close>
  "float_of_int n = (case round_double (of_int n) of Fin v \<Rightarrow> Inr (Fin v) | _ \<Rightarrow> Inl OverflowError)"

definition int_truediv :: "int \<Rightarrow> int \<Rightarrow> error + pyfloat" where
  \<comment> \<open>\<open>a / b\<close> on ints: the correctly rounded quotient\<close>
  "int_truediv a b =
     (if b = 0 then Inl ZeroDivisionError
      else case round_double (of_int a / of_int b) of
             Fin v \<Rightarrow> Inr (Fin v)
           | _ \<Rightarrow> Inl OverflowError)"

definition int_of_float :: "pyfloat \<Rightarrow> error + int" where
  \<comment> \<open>\<open>int(x)\<close> of a float: truncation towards zero\<close>
  "int_of_float v =
     (case v of
        Fin x \<Rightarrow> Inr (if 0 \<le> x then \<lfloor>x\<rfloor> else \<lceil>x\<rceil>)
      | NaN \<Rightarrow> Inl ValueError
      | _ \<Rightarrow> Inl OverflowError)"

definition scale10 :: "rat \<Rightarrow> int \<Rightarrow> rat" where
  "scale10 m e = (if 0 \<le> e then m * 10 ^ nat e else m / 10 ^ nat (- e))"

definition float_mantissa :: "string \<Rightarrow> rat option" where
  \<comment> \<open>\<open>digitpart ["." [digitpart]] | "." digitpart\<close>\<close>
  "float_mantissa s =
     (let ip = takeWhile (\<lambda>c. c \<noteq> CHR ''.'') s; r = dropWhile (\<lambda>c. c \<noteq> CHR ''.'') s
      in case r of
           [] \<Rightarrow> map_option (\<lambda>ds. of_int (int_of_digits ds)) (digitpart ip)
         | _ # fp \<Rightarrow>
             (let iv = (if ip = [] then Some [] else digitpart ip);
                  fv = (if fp = [] then Some [] else digitpart fp)
              in if ip = [] \<and> fp = [] then None
                 else case (iv, fv) of
                        (Some i, Some f) \<Rightarrow>
                          Some (of_int (int_of_digits i) + of_int (int_of_digits f) / 10 ^ length f)
                      | _ \<Rightarrow> None))"

definition float_exponent :: "string \<Rightarrow> int option" where
  \<comment> \<open>\<open>[sign] digitpart\<close> after the exponent letter\<close>
  "float_exponent s =
     (let (neg, body) = split_sign s
      in map_option (\<lambda>ds. if neg then - int_of_digits ds else int_of_digits ds)
           (digitpart body))"

definition ascii_lower :: "char \<Rightarrow> char" where
  "ascii_lower c =
     (if c \<in> set ''ABCDEFGHIJKLMNOPQRSTUVWXYZ'' then char_of (of_char c + (32 :: nat)) else c)"

definition py_float :: "string \<Rightarrow> error + pyfloat" where
  \<comment> \<open>\<open>float(s)\<close>: the decimal numeral, correctly rounded, or a spelling of infinity or NaN\<close>
  "py_float s =
     (let (neg, body) = split_sign (strip s);
          low = map ascii_lower body
      in if low = ''inf'' \<or> low = ''infinity'' then Inr (if neg then NInf else PInf)
         else if low = ''nan'' then Inr NaN
         else (let is_e = (\<lambda>c. c = CHR ''e'' \<or> c = CHR ''E'');
                   m = takeWhile (\<lambda>c. \<not> is_e c) body;
                   r = dropWhile (\<lambda>c. \<not> is_e c) body;
                   ev = (case r of [] \<Rightarrow> Some 0 | _ # ex \<Rightarrow> float_exponent ex)
               in case (float_mantissa m, ev) of
                    (Some v, Some e) \<Rightarrow> Inr (round_double (if neg then - scale10 v e else scale10 v e))
                  | _ \<Rightarrow> Inl ValueError))"

section \<open>Regular expressions as used by the parsers\<close>

text \<open>
  The patterns of the source use literals, \<open>.\<close>, character classes, greedy \<open>*\<close> and \<open>+\<close>
  on a character class, \<open>?\<close>, groups, alternation and \<open>$\<close>. \<open>matches r s\<close> lists, in the
  order in which a backtracking matcher tries them, every way in which \<open>r\<close> matches a
  prefix of \<open>s\<close>: the texts of the groups and the rest of \<open>s\<close>. The head of the list is the
  match that \<open>re\<close> reports.
\<close>

datatype re =
    Lit string
  | Dot
  | Cls string
  | StarCls string
  | PlusCls string
  | Opt re
  | Group re
  | Seq re re
  | Alt re re
  | Eol

definition digits :: string where
  "digits = ''0123456789''"

fun matches :: "re \<Rightarrow> string \<Rightarrow> (string list \<times> string) list" where
  "matches (Lit t) s = (if prefix t s then [([], drop (length t) s)] else [])"
| "matches Dot s = (case s of [] \<Rightarrow> [] | c # cs \<Rightarrow> if c = CHR 0x0A then [] else [([], cs)])"
| "matches (Cls cl) s = (case s of [] \<Rightarrow> [] | c # cs \<Rightarrow> if c \<in> set cl then [([], cs)] else [])"
| "matches (StarCls cl) s =
     map (\<lambda>n. ([], drop n s)) (rev [0 ..< Suc (length (takeWhile (\<lambda>c. c \<in> set cl) s))])"
| "matches (PlusCls cl) s =
     map (\<lambda>n. ([], drop n s)) (rev [1 ..< Suc (length (takeWhile (\<lambda>c. c \<in> set cl) s))])"
| "matches (Opt r) s = matches r s @ [([], s)]"
| "matches (Group r) s =
     map (\<lambda>(gs, rest). (take (length s - length rest) s # gs, rest)) (matches r s)"
| "matches (Seq a b) s =
     concat (map (\<lambda>(g1, r1). map (\<lambda>(g2, r2). (g1 @ g2, r2)) (matches b r1)) (matches a s))"
| "matches (Alt a b) s = matches a s @ matches b s"
| "matches Eol s = (if s = [] \<or> s = [CHR 0x0A] then [([], s)] else [])"

text \<open>A match object: start, end, and the texts of the groups.\<close>

record match_obj =
  m_start :: nat
  m_end :: nat
  m_groups :: "string list"

definition re_match_at :: "re \<Rightarrow> nat \<Rightarrow> string \<Rightarrow> match_obj option" where
  \<comment> \<open>the match of \<open>r\<close> anchored at offset \<open>i\<close>, where \<open>s\<close> is the text from \<open>i\<close> on\<close>
  "re_match_at r i s =
     (case matches r s of
        [] \<Rightarrow> None
      | (gs, rest) # _ \<Rightarrow> Some \<lparr>m_start = i, m_end = i + (length s - length rest), m_groups = gs\<rparr>)"

definition re_match :: "re \<Rightarrow> string \<Rightarrow> match_obj option" where
  \<comment> \<open>\<open>re.match\<close>\<close>
  "re_match r s = re_match_at r 0 s"

fun re_search_from :: "re \<Rightarrow> nat \<Rightarrow> string \<Rightarrow> match_obj option" where
  "re_search_from r i [] = re_match_at r i []"
| "re_search_from r i (c # cs) =
     (case re_match_at r i (c # cs) of
        Some m \<Rightarrow> Some m
      | None \<Rightarrow> re_search_from r (Suc i) cs)"

definition re_search :: "re \<Rightarrow> string \<Rightarrow> match_obj option" where
  \<comment> \<open>\<open>re.search\<close>: the leftmost match\<close>
  "re_search r s = re_search_from r 0 s"

section \<open>Frame-rate correction (ffmpeg\_parse\_infos.py)\<close>

definition epsilon_default :: pyfloat where
  \<comment> \<open>the literal \<open>0.01\<close>\<close>
  "epsilon_default = round_double (1 / 100)"

definition roughly_equal :: "pyfloat \<Rightarrow> pyfloat \<Rightarrow> pyfloat \<Rightarrow> error + bool" where
  \<comment> \<open>\<open>abs((a / b) - 1) < epsilon\<close>\<close>
  "roughly_equal a b epsilon =
     (case py_truediv a b of
        Inl e \<Rightarrow> Inl e
      | Inr q \<Rightarrow> Inr (flt (fabs (fsub q (Fin 1))) epsilon))"

definition coef :: pyfloat where
  \<comment> \<open>\<open>1000.0 / 1001.0\<close>\<close>
  "coef = fdiv (Fin 1000) (Fin 1001)"

fun adjust_fps_loop :: "pyfloat \<Rightarrow> int list \<Rightarrow> error + pyfloat" where
  "adjust_fps_loop fps [] = Inr fps"
| "adjust_fps_loop fps (x # xs) =
     (if fne fps (Fin (of_int x))
      then (case roughly_equal fps (fmul (Fin (of_int x)) coef) epsilon_default of
              Inl e \<Rightarrow> Inl e
            | Inr close \<Rightarrow>
                if close then Inr (fmul (Fin (of_int x)) coef) else adjust_fps_loop fps xs)
      else adjust_fps_loop fps xs)"

definition adjust_fps :: "pyfloat \<Rightarrow> error + pyfloat" where
  "adjust_fps fps = adjust_fps_loop fps [23, 24, 25, 30, 50]"

section \<open>The parsers of ffmpeg\_parse\_infos.py\<close>

fun seqs :: "re list \<Rightarrow> re" where
  \<comment> \<open>a pattern written as the sequence of its parts\<close>
  "seqs [] = Lit []"
| "seqs [r] = r"
| "seqs (r # rs) = Seq r (seqs rs)"

definition attempt :: "error + 'a \<Rightarrow> 'a option" where
  \<comment> \<open>\<open>try: v = e  except: pass\<close> around a variable initialised to \<open>None\<close>\<close>
  "attempt r = (case r of Inl _ \<Rightarrow> None | Inr v \<Rightarrow> Some v)"

definition group :: "match_obj \<Rightarrow> nat \<Rightarrow> string" where
  \<comment> \<open>\<open>match.group(n)\<close> for \<open>n \<ge> 1\<close>\<close>
  "group m n = m_groups m ! (n - 1)"

definition re_tbr :: re where
  \<comment> \<open>\<open>"( [0-9]*.| )[0-9]* tbr"\<close>\<close>
  "re_tbr = seqs [Group (Alt (seqs [Lit '' '', StarCls digits, Dot]) (Lit '' '')),
                  StarCls digits, Lit '' tbr'']"

definition re_fps :: re where
  \<comment> \<open>\<open>r" ([0-9.]+)(k?) fps"\<close>\<close>
  "re_fps = seqs [Lit '' '', Group (PlusCls (digits @ ''.'')), Group (Opt (Lit ''k'')), Lit '' fps'']"

definition re_hz :: re where
  \<comment> \<open>\<open>" [0-9]* Hz"\<close>\<close>
  "re_hz = seqs [Lit '' '', StarCls digits, Lit '' Hz'']"

definition re_trailing_int :: re where
  \<comment> \<open>\<open>'\d+$'\<close>\<close>
  "re_trailing_int = seqs [PlusCls digits, Eol]"

definition re_size :: re where
  \<comment> \<open>\<open>" [0-9]*x[0-9]*(,| )"\<close>\<close>
  "re_size = seqs [Lit '' '', StarCls digits, Lit ''x'', StarCls digits,
                   Group (Alt (Lit '','') (Lit '' ''))]"

definition re_dims :: re where
  \<comment> \<open>\<open>'\d+x\d+'\<close>\<close>
  "re_dims = seqs [PlusCls digits, Lit ''x'', PlusCls digits]"

definition re_timestamp :: re where
  \<comment> \<open>\<open>"([0-9][0-9]:[0-9][0-9]:[0-9][0-9].[0-9][0-9])"\<close>\<close>
  "re_timestamp = Group (seqs [Cls digits, Cls digits, Lit '':'', Cls digits, Cls digits, Lit '':'',
                               Cls digits, Cls digits, Dot, Cls digits, Cls digits])"

definition re_probe :: re where
  \<comment> \<open>\<open>r"(\d+)/(\d+)\|(\d+)"\<close>\<close>
  "re_probe = seqs [Group (PlusCls digits), Lit ''/'', Group (PlusCls digits), Lit ''|'',
                    Group (PlusCls digits)]"

fun re_findall_from :: "re \<Rightarrow> nat \<Rightarrow> string \<Rightarrow> string list" where
  \<comment> \<open>\<open>re.findall\<close> for a pattern with at most one group: the texts of the successive
      non-overlapping matches; \<open>skip\<close> counts the characters still covered by the last match\<close>
  "re_findall_from r skip [] =
     (if skip = 0 then
        (case re_match_at r 0 [] of
           Some m \<Rightarrow> [case m_groups m of [] \<Rightarrow> [] | g # _ \<Rightarrow> g]
         | None \<Rightarrow> [])
      else [])"
| "re_findall_from r skip (c # cs) =
     (if 0 < skip then re_findall_from r (skip - 1) cs
      else case re_match_at r 0 (c # cs) of
             Some m \<Rightarrow> (case m_groups m of [] \<Rightarrow> take (m_end m) (c # cs) | g # _ \<Rightarrow> g)
                        # re_findall_from r (m_end m - 1) cs
           | None \<Rightarrow> re_findall_from r 0 cs)"

definition re_findall :: "re \<Rightarrow> string \<Rightarrow> string list" where
  "re_findall r s = re_findall_from r 0 s"

definition get_tbr :: "string \<Rightarrow> error + pyfloat" where
  "get_tbr line =
     (case re_search re_tbr line of
        None \<Rightarrow> Inl AttributeError
      | Some m \<Rightarrow>
          (case index_or_raise (split_chr CHR '' '' (slice line (m_start m) (m_end m))) 1 of
             Inl e \<Rightarrow> Inl e
           | Inr s_tbr \<Rightarrow>
               if contains ''k'' s_tbr
               then (case py_float (filter (\<lambda>c. c \<noteq> CHR ''k'') s_tbr) of
                       Inl e \<Rightarrow> Inl e
                     | Inr v \<Rightarrow> Inr (fmul v (Fin 1000)))
               else py_float s_tbr))"

definition get_fps :: "string \<Rightarrow> error + pyfloat" where
  "get_fps line =
     (case re_search re_fps line of
        None \<Rightarrow> Inl AttributeError
      | Some m \<Rightarrow>
          (case py_float (group m 1) of
             Inl e \<Rightarrow> Inl e
           | Inr fps \<Rightarrow> Inr (if group m 2 = ''k'' then fmul fps (Fin 1000) else fps)))"

definition fps_usable :: "pyfloat option \<Rightarrow> bool" where
  \<comment> \<open>\<open>x and x <= 1e3\<close>: \<open>None\<close> and \<open>0.0\<close> are falsy\<close>
  "fps_usable x = (case x of None \<Rightarrow> False | Some v \<Rightarrow> truthy v \<and> fle v (Fin 1000))"

definition parse_video_fps :: "string \<Rightarrow> string \<Rightarrow> error + pyfloat" where
  "parse_video_fps line fps_source =
     (let fps_by_tbr = attempt (get_tbr line);
          fps_by_fps = attempt (get_fps line)
      in case (if fps_source = ''tbr'' then Inr (fps_by_tbr, fps_by_fps)
               else if fps_source = ''fps'' then Inr (fps_by_fps, fps_by_tbr)
               else Inl (KeyError fps_source)) of
           Inl e \<Rightarrow> Inl e
         | Inr (primary_fps, fallback_fps) \<Rightarrow>
             if fps_usable primary_fps then Inr (the primary_fps)
             else if fps_usable fallback_fps then Inr (the fallback_fps)
             else Inr (Fin 30))"

definition parse_audio_infos :: "string list \<Rightarrow> bool \<times> int option" where
  "parse_audio_infos lines =
     (let lines_audio = filter (contains '' Audio: '') lines;
          audio_found = (lines_audio \<noteq> [])
      in if audio_found
         then (let line = hd lines_audio
               in (audio_found,
                   attempt (case re_search re_hz line of
                              None \<Rightarrow> Inl AttributeError
                            | Some m \<Rightarrow> py_int (slice line (m_start m + 1) (m_end m - 3)))))
         else (audio_found, None))"

definition rotation_error :: "string list \<Rightarrow> error" where
  "rotation_error rotation_lines =
     IOError (''MoviePy error: failed to read video rotation in file.'' @ [CHR 0x0A]
              @ ''Here are the file infos returned by ffmpeg:'' @ [CHR 0x0A, CHR 0x0A]
              @ concat rotation_lines)"

definition parse_rotation :: "string list \<Rightarrow> error + int" where
  "parse_rotation lines =
     (let rotation_lines =
            filter (\<lambda>l. contains ''rotate          :'' l \<and> re_search re_trailing_int l \<noteq> None) lines
      in case (if length rotation_lines \<noteq> 0
               then (let rotation_line = hd rotation_lines
                     in case re_search re_trailing_int rotation_line of
                          None \<Rightarrow> Inl AttributeError
                        | Some m \<Rightarrow> py_int (slice rotation_line (m_start m) (m_end m)))
               else Inr 0) of
           Inl _ \<Rightarrow> Inl (rotation_error rotation_lines)
         | Inr video_rotation \<Rightarrow> Inr video_rotation)"

definition size_error :: "string \<Rightarrow> error" where
  "size_error line =
     IOError (''MoviePy error: failed to read video dimensions in file.'' @ [CHR 0x0A]
              @ ''Here are the file infos returned by ffmpeg:'' @ [CHR 0x0A, CHR 0x0A]
              @ line)"

definition parse_video_size :: "string \<Rightarrow> error + int \<times> int" where
  "parse_video_size line =
     (case (case re_search re_size line of
              None \<Rightarrow> Inl AttributeError
            | Some m \<Rightarrow>
                (let s = split_chr CHR ''x'' (slice line (m_start m) (m_end m - 1))
                 in case index_or_raise s 0 of
                      Inl e \<Rightarrow> Inl e
                    | Inr s0 \<Rightarrow>
                        (case py_int s0 of
                           Inl e \<Rightarrow> Inl e
                         | Inr w \<Rightarrow>
                             (case index_or_raise s 1 of
                                Inl e \<Rightarrow> Inl e
                              | Inr s1 \<Rightarrow>
                                  (case py_int s1 of
                                     Inl e \<Rightarrow> Inl e
                                   | Inr h \<Rightarrow> Inr (w, h)))))) of
        Inl _ \<Rightarrow> Inl (size_error line)
      | Inr video_size \<Rightarrow> Inr video_size)"

text \<open>
  The outside world: \<open>call_command\<close> runs a process and returns the text of one of its
  streams, \<open>FFMPEG_BINARY\<close> comes from the configuration module and \<open>convert_to_seconds\<close>
  from the tools module. None of them is part of the two files; they are parameters.
\<close>

record env =
  call_command :: "string list \<Rightarrow> string \<Rightarrow> string"
  FFMPEG_BINARY :: string
  convert_to_seconds :: "string \<Rightarrow> error + pyfloat"

definition not_found_error :: "string \<Rightarrow> error" where
  "not_found_error filename =
     IOError (''MoviePy error: the file '' @ filename @ '' could not be found!'' @ [CHR 0x0A]
              @ ''Please check that you entered the correct path.'')"

definition get_raw_metadata :: "env \<Rightarrow> string \<Rightarrow> error + string" where
  "get_raw_metadata E filename =
     (let is_GIF = endswith filename ''.gif'';
          cmd = [FFMPEG_BINARY E, ''-i'', filename]
                @ (if is_GIF then [''-f'', ''null'', ''/dev/null''] else []);
          infos = call_command E cmd ''stderr'';
          lines = splitlines infos
      in if lines = [] then Inl IndexError
         else if contains ''No such file or directory'' (last lines)
         then Inl (not_found_error filename)
         else Inr infos)"

definition parse_duration :: "env \<Rightarrow> bool \<Rightarrow> string list \<Rightarrow> error + pyfloat" where
  "parse_duration E is_GIF lines =
     (let keyword = (if is_GIF then ''frame='' else ''Duration: '');
          found = filter (contains keyword) lines
      in if found = [] then Inl IndexError
         else (let line = (if is_GIF then last found else hd found);
                   ms = re_findall re_timestamp line
               in if ms \<noteq> [] then convert_to_seconds E (hd ms) else Inr (Fin 0)))"

definition get_alt_fps_n_frames :: "env \<Rightarrow> string \<Rightarrow> error + pyfloat \<times> int" where
  "get_alt_fps_n_frames E filename =
     (let cmd = [''ffprobe'', ''-show_entries'', ''stream=r_frame_rate,nb_read_frames'',
                 ''-select_streams'', ''v'', ''-count_frames'',
                 ''-of'', ''compact=p=0:nk=1'', ''-v'', ''0'', filename];
          out = call_command E cmd ''stdout''
      in case re_match re_probe out of
           None \<Rightarrow> Inl AttributeError
         | Some m \<Rightarrow>
             (case (py_int (group m 1), py_int (group m 2)) of
                (Inr a, Inr b) \<Rightarrow>
                  (case int_truediv a b of
                     Inl e \<Rightarrow> Inl e
                   | Inr fps \<Rightarrow>
                       (case py_int (group m 3) of
                          Inl e \<Rightarrow> Inl e
                        | Inr n_frames \<Rightarrow> Inr (fps, n_frames)))
              | (Inl e, _) \<Rightarrow> Inl e
              | (_, Inl e) \<Rightarrow> Inl e))"

text \<open>
  The field \<open>audio_fps\<close> is declared as an int, defaults to the string \<open>'unknown'\<close> and is
  assigned \<open>None\<close> or an int by the extraction; its values are kept apart.
\<close>

datatype audio_rate = RateStr string | RateNone | RateInt int

record VideoMetaData =
  duration :: "pyfloat option"
  size_meta :: "(int \<times> int) option"
  video_found :: bool
  video_fps :: "pyfloat option"
  video_n_frames :: "int option"
  video_duration :: "pyfloat option"
  video_rotation :: int
  video_size :: "(int \<times> int) option"
  audio_found :: bool
  audio_fps :: audio_rate

definition VideoMetaData_default :: VideoMetaData where
  "VideoMetaData_default =
     \<lparr>duration = None, size_meta = None, video_found = False, video_fps = None,
      video_n_frames = None, video_duration = None, video_rotation = 0, video_size = None,
      audio_found = False, audio_fps = RateStr ''unknown''\<rparr>"

definition audio_rate_of :: "int option \<Rightarrow> audio_rate" where
  "audio_rate_of v = (case v of None \<Rightarrow> RateNone | Some n \<Rightarrow> RateInt n)"

definition video_lines :: "string list \<Rightarrow> string list" where
  \<comment> \<open>\<open>[l for l in lines if ' Video: ' in l and re.search('\d+x\d+', l)]\<close>\<close>
  "video_lines lines = filter (\<lambda>l. contains '' Video: '' l \<and> re_search re_dims l \<noteq> None) lines"

definition video_infos ::
  "env \<Rightarrow> string \<Rightarrow> string \<Rightarrow> string list \<Rightarrow> string list \<Rightarrow> VideoMetaData \<Rightarrow> error + VideoMetaData" where
  \<comment> \<open>the body of \<open>if meta.video_found:\<close>\<close>
  "video_infos E filename fps_source lines lines_video meta =
     (case (if \<not> truthy (the (duration meta))
            then (case get_alt_fps_n_frames E filename of
                    Inl e \<Rightarrow> Inl e
                  | Inr (fps, n_frames) \<Rightarrow>
                      (case float_of_int n_frames of
                         Inl e \<Rightarrow> Inl e
                       | Inr nf \<Rightarrow>
                           (case py_truediv nf fps of
                              Inl e \<Rightarrow> Inl e
                            | Inr vd \<Rightarrow>
                                Inr (meta\<lparr>video_duration := Some vd,
                                           video_fps := Some fps,
                                           video_n_frames := Some n_frames,
                                           duration := Some vd\<rparr>))))
            else (case parse_video_fps (hd lines_video) fps_source of
                    Inl e \<Rightarrow> Inl e
                  | Inr fps \<Rightarrow>
                      (case int_of_float (fmul (the (duration meta)) fps) of
                         Inl e \<Rightarrow> Inl e
                       | Inr k \<Rightarrow>
                           Inr (meta\<lparr>video_fps := Some fps,
                                      video_n_frames := Some (k + 1),
                                      video_duration := duration meta\<rparr>)))) of
        Inl e \<Rightarrow> Inl e
      | Inr meta1 \<Rightarrow>
          (case parse_video_size (hd lines_video) of
             Inl e \<Rightarrow> Inl e
           | Inr sz \<Rightarrow>
               (let meta2 = meta1\<lparr>video_size := Some sz\<rparr>
                in case adjust_fps (the (video_fps meta2)) of
                     Inl e \<Rightarrow> Inl e
                   | Inr fps' \<Rightarrow>
                       (let meta3 = meta2\<lparr>video_fps := Some fps'\<rparr>
                        in case parse_rotation lines of
                             Inl e \<Rightarrow> Inl e
                           | Inr rot \<Rightarrow> Inr (meta3\<lparr>video_rotation := rot\<rparr>)))))"

definition ffmpeg_parse_infos ::
  "env \<Rightarrow> string \<Rightarrow> bool \<Rightarrow> bool \<Rightarrow> string \<Rightarrow> bool \<Rightarrow> error + VideoMetaData" where
  "ffmpeg_parse_infos E filename print_infos check_duration fps_source decode_file =
     (if \<not> check_duration then Inl AssertionError
      else case get_raw_metadata E filename of
             Inl e \<Rightarrow> Inl e
           | Inr raw_metadata \<Rightarrow>
               (let lines = splitlines raw_metadata
                in case parse_duration E (endswith filename ''.gif'') lines of
                     Inl e \<Rightarrow> Inl e
                   | Inr d \<Rightarrow>
                       (let meta = VideoMetaData_default\<lparr>duration := Some d\<rparr>;
                            lines_video = video_lines lines;
                            meta = meta\<lparr>video_found := (lines_video \<noteq> [])\<rparr>
                        in case (if video_found meta
                                 then video_infos E filename fps_source lines lines_video meta
                                 else Inr meta) of
                             Inl e \<Rightarrow> Inl e
                           | Inr meta \<Rightarrow>
                               (let (found, rate) = parse_audio_infos lines
                                in Inr (meta\<lparr>audio_found := found,
                                              audio_fps := audio_rate_of rate\<rparr>)))))"


definition convert_to_seconds_model :: "string \<Rightarrow> error + pyfloat" where
  \<comment> \<open>Modelled from the spec: \<open>convert_to_seconds\<close> of the tools module is not part of the two
      files. An \<open>HH:MM:SS.ff\<close> timestamp is converted to seconds.\<close>
  "convert_to_seconds_model t =
     (case map py_float (split_chr CHR '':'' t) of
        [Inr h, Inr m, Inr sec] \<Rightarrow>
          Inr (fadd (fadd sec (fmul (Fin 60) m)) (fmul (Fin 3600) h))
      | _ \<Rightarrow> Inl ValueError)"

definition env_with_output :: "string \<Rightarrow> env" where
  \<comment> \<open>an outside world for the examples: every command prints \<open>out\<close>\<close>
  "env_with_output out =
     \<lparr>call_command = (\<lambda>cmd stream. out), FFMPEG_BINARY = ''ffmpeg'',
      convert_to_seconds = convert_to_seconds_model\<rparr>"

section \<open>Still images (ImageClip.py)\<close>

text \<open>
  A pixel buffer is a two- or three-dimensional array with its shape; the entries are
  reals. The rows of \<open>Arr3 h w c rows\<close> are \<open>h\<close> lists of \<open>w\<close> pixels of \<open>c\<close> channels.
\<close>

datatype ndarray =
    Arr2 nat nat "real list list"
  | Arr3 nat nat nat "real list list list"

definition wf_ndarray :: "ndarray \<Rightarrow> bool" where
  "wf_ndarray a =
     (case a of
        Arr2 h w rows \<Rightarrow> length rows = h \<and> (\<forall>row \<in> set rows. length row = w)
      | Arr3 h w c rows \<Rightarrow>
          length rows = h \<and> (\<forall>row \<in> set rows. length row = w \<and> (\<forall>px \<in> set row. length px = c)))"

definition shape_size :: "ndarray \<Rightarrow> nat \<times> nat" where
  \<comment> \<open>\<open>img.shape[:2][::-1]\<close>\<close>
  "shape_size a = (case a of Arr2 h w _ \<Rightarrow> (w, h) | Arr3 h w _ _ \<Rightarrow> (w, h))"

definition channel_over_255 :: "nat \<Rightarrow> nat \<Rightarrow> nat \<Rightarrow> real list list list \<Rightarrow> ndarray" where
  \<comment> \<open>\<open>1.0 * img[:, :, k] / 255\<close>\<close>
  "channel_over_255 k h w rows = Arr2 h w (map (map (\<lambda>px. 1.0 * (px ! k) / 255)) rows)"

definition first_channels :: "nat \<Rightarrow> nat \<Rightarrow> nat \<Rightarrow> nat \<Rightarrow> real list list list \<Rightarrow> ndarray" where
  \<comment> \<open>\<open>img[:, :, :n]\<close>\<close>
  "first_channels n h w c rows = Arr3 h w (min n c) (map (map (take n)) rows)"

datatype clip =
  Clip (clip_is_mask: bool)
       (clip_duration: "real option")
       (clip_mask: "clip option")
       (clip_audio: "clip option")
       (clip_make_frame: "(real \<Rightarrow> ndarray) option")
       (clip_size: "(nat \<times> nat) option")
       (clip_img: "ndarray option")

definition VideoClip_init :: "bool \<Rightarrow> real option \<Rightarrow> clip" where
  \<comment> \<open>Modelled from the spec: the initialiser of the base class \<open>VideoClip\<close> is not part of the
      two files. It records the mask flag and the duration; no mask or audio is attached and
      no frame function, size or image is set yet.\<close>
  "VideoClip_init m d = Clip m d None None None None None"

fun set_mask :: "clip option \<Rightarrow> clip \<Rightarrow> clip" where
  "set_mask v (Clip m d _ au mf sz im) = Clip m d v au mf sz im"

fun set_audio :: "clip option \<Rightarrow> clip \<Rightarrow> clip" where
  "set_audio v (Clip m d mk _ mf sz im) = Clip m d mk v mf sz im"

fun set_image :: "ndarray \<Rightarrow> clip \<Rightarrow> clip" where
  \<comment> \<open>\<open>self.make_frame = lambda t: img; self.size = img.shape[:2][::-1]; self.img = img\<close>\<close>
  "set_image a (Clip m d mk au _ _ _) = Clip m d mk au (Some (\<lambda>t. a)) (Some (shape_size a)) (Some a)"

datatype img_arg = Path string | Array ndarray

function ImageClip_init ::
  "(string \<Rightarrow> error + ndarray) \<Rightarrow> img_arg \<Rightarrow> bool \<Rightarrow> bool \<Rightarrow> bool \<Rightarrow> real option \<Rightarrow> error + clip" where
  "ImageClip_init imread img_in is_mask transparent fromalpha dur =
     (let self = VideoClip_init is_mask dur
      in case (case img_in of Array a \<Rightarrow> Inr a | Path p \<Rightarrow> imread p) of
           Inl e \<Rightarrow> Inl e
         | Inr img \<Rightarrow>
             (case (case img of
                      Arr3 h w c rows \<Rightarrow>
                        if c = 4 then
                          (if fromalpha then Inr (self, channel_over_255 3 h w rows)
                           else if is_mask then Inr (self, channel_over_255 0 h w rows)
                           else if transparent then
                             (case ImageClip_init imread (Array (channel_over_255 3 h w rows))
                                     True True False None of
                                Inl e \<Rightarrow> Inl e
                              | Inr m \<Rightarrow> Inr (set_mask (Some m) self, first_channels 3 h w c rows))
                           else Inr (self, img))
                        else if is_mask then
                          (if c = 0 then Inl IndexError else Inr (self, channel_over_255 0 h w rows))
                        else Inr (self, img)
                    | Arr2 h w rows \<Rightarrow> Inr (self, img)) of
                Inl e \<Rightarrow> Inl e
              | Inr (self, img) \<Rightarrow> Inr (set_image img self)))"
  by pat_completeness auto
termination
  by (relation "measure (\<lambda>(imread, img_in, is_mask, transparent, fromalpha, dur).
        case img_in of Array (Arr2 _ _ _) \<Rightarrow> 0 | _ \<Rightarrow> Suc 0)")
     (auto simp: channel_over_255_def split: img_arg.splits ndarray.splits)

declare ImageClip_init.simps [simp del]

text \<open>
  \<open>rotate\<close> works on an image of the imaging library. The library is outside the two
  files: the tag table \<open>ExifTags.TAGS\<close> (tag number, tag name), \<open>getexif\<close> (the image's tags
  and their values; empty when there is no metadata) and the library's own
  \<open>rotate(angle, expand)\<close> are parameters.
\<close>

fun index_of :: "'a \<Rightarrow> 'a list \<Rightarrow> nat option" where
  \<comment> \<open>\<open>xs.index(v)\<close>; \<open>None\<close> stands for ValueError\<close>
  "index_of v [] = None"
| "index_of v (x # xs) = (if x = v then Some 0 else map_option Suc (index_of v xs))"

definition rotate ::
  "(nat \<times> string) list \<Rightarrow> ('im \<Rightarrow> (nat \<times> int) list) \<Rightarrow> (int \<Rightarrow> bool \<Rightarrow> 'im \<Rightarrow> 'im) \<Rightarrow> 'im \<Rightarrow> 'im" where
  "rotate TAGS getexif im_rotate im =
     (let exif = getexif im
      in if exif = [] then im
         else case index_of ''Orientation'' (map snd TAGS) of
                None \<Rightarrow> im
              | Some i \<Rightarrow>
                  (let orientation_key = map fst TAGS ! i;
                       key = map_of exif orientation_key
                   in if key = Some 3 then im_rotate 180 True im
                      else if key = Some 6 then im_rotate 270 True im
                      else if key = Some 8 then im_rotate 90 True im
                      else im))"

text \<open>
  \<open>time_transform\<close> is decorated with \<open>outplace\<close>, which is outside the two files: the body
  works on a copy of the clip and the copy is returned. \<open>getattr(self, attr, None)\<close> reads
  an attribute by name: a sub-clip, \<open>None\<close> (also for a name that is no attribute), or a
  value that is no clip and has no \<open>time_transform\<close>. The call \<open>a.time_transform(time_func)\<close>
  is dispatched on the class of the sub-clip; it is the parameter \<open>sub_tt\<close>.
\<close>

datatype attr_val = NoneVal | SubClip clip | OtherVal

definition getattr :: "clip \<Rightarrow> string \<Rightarrow> attr_val" where
  "getattr c name =
     (if name = ''mask'' then (case clip_mask c of None \<Rightarrow> NoneVal | Some a \<Rightarrow> SubClip a)
      else if name = ''audio'' then (case clip_audio c of None \<Rightarrow> NoneVal | Some a \<Rightarrow> SubClip a)
      else if name = ''duration'' then (case clip_duration c of None \<Rightarrow> NoneVal | Some _ \<Rightarrow> OtherVal)
      else if name = ''make_frame'' then (case clip_make_frame c of None \<Rightarrow> NoneVal | Some _ \<Rightarrow> OtherVal)
      else if name = ''size'' then (case clip_size c of None \<Rightarrow> NoneVal | Some _ \<Rightarrow> OtherVal)
      else if name = ''img'' then (case clip_img c of None \<Rightarrow> NoneVal | Some _ \<Rightarrow> OtherVal)
      else if name = ''is_mask'' then OtherVal
      else NoneVal)"

definition setattr_clip :: "clip \<Rightarrow> string \<Rightarrow> clip \<Rightarrow> clip" where
  \<comment> \<open>\<open>setattr(self, attr, new_a)\<close> for the two attributes that hold sub-clips\<close>
  "setattr_clip c name new_a =
     (if name = ''mask'' then set_mask (Some new_a) c
      else if name = ''audio'' then set_audio (Some new_a) c
      else c)"

fun time_transform_loop ::
  "((real \<Rightarrow> real) \<Rightarrow> clip \<Rightarrow> clip) \<Rightarrow> (real \<Rightarrow> real) \<Rightarrow> string list \<Rightarrow> clip \<Rightarrow> error + clip" where
  "time_transform_loop sub_tt time_func [] self = Inr self"
| "time_transform_loop sub_tt time_func (attr # rest) self =
     (case getattr self attr of
        NoneVal \<Rightarrow> time_transform_loop sub_tt time_func rest self
      | SubClip a \<Rightarrow>
          time_transform_loop sub_tt time_func rest (setattr_clip self attr (sub_tt time_func a))
      | OtherVal \<Rightarrow> Inl AttributeError)"

definition time_transform ::
  "((real \<Rightarrow> real) \<Rightarrow> clip \<Rightarrow> clip) \<Rightarrow> clip \<Rightarrow> (real \<Rightarrow> real) \<Rightarrow> string list option \<Rightarrow> bool
     \<Rightarrow> error + clip" where
  "time_transform sub_tt self time_func apply_to keep_duration =
     (let apply_to = (case apply_to of None \<Rightarrow> [''mask'', ''audio''] | Some names \<Rightarrow> names)
      in time_transform_loop sub_tt time_func apply_to self)"

section \<open>Properties of the float arithmetic\<close>









section \<open>Properties of the frame-rate correction\<close>


lemma coef_val: "coef = Fin (8998201053687305 / 9007199254740992)"
  by code_simp

lemma snap_vals:
  "fmul (Fin 23) coef = Fin (3233728503668875 / 140737488355328)"
  "fmul (Fin 24) coef = Fin (6748650790265479 / 281474976710656)"
  "fmul (Fin 25) coef = Fin (7029844573193207 / 281474976710656)"
  "fmul (Fin 30) coef = Fin (1054476685978981 / 35184372088832)"
  "fmul (Fin 50) coef = Fin (7029844573193207 / 140737488355328)"
  by code_simp+





lemma snap_nonzero:
  assumes "x \<in> {23, 24, 25, 30, 50}"
  shows "\<exists>b. fmul (Fin (of_int x)) coef = Fin b \<and> b \<noteq> 0"
proof -
  from assms consider "x = 23" | "x = 24" | "x = 25" | "x = 30" | "x = 50" by auto
  then show ?thesis
  proof cases
    case 1
    show ?thesis unfolding 1 of_int_numeral snap_vals
      by (rule exI[of _ "3233728503668875 / 140737488355328"]) simp
  next
    case 2
    show ?thesis unfolding 2 of_int_numeral snap_vals
      by (rule exI[of _ "6748650790265479 / 281474976710656"]) simp
  next
    case 3
    show ?thesis unfolding 3 of_int_numeral snap_vals
      by (rule exI[of _ "7029844573193207 / 281474976710656"]) simp
  next
    case 4
    show ?thesis unfolding 4 of_int_numeral snap_vals
      by (rule exI[of _ "1054476685978981 / 35184372088832"]) simp
  next
    case 5
    show ?thesis unfolding 5 of_int_numeral snap_vals
      by (rule exI[of _ "7029844573193207 / 140737488355328"]) simp
  qed
qed








lemma adjust_fps_loop_total:
  "set xs \<subseteq> {23, 24, 25, 30, 50} \<Longrightarrow> \<exists>y. adjust_fps_loop fps xs = Inr y"
proof (induction xs)
  case Nil
  show ?case by simp
next
  case (Cons x xs)
  then have x: "x \<in> {23, 24, 25, 30, 50}" by simp
  from Cons have ih: "\<exists>y. adjust_fps_loop fps xs = Inr y" by simp
  from snap_nonzero[OF x] obtain b where b: "fmul (Fin (of_int x)) coef = Fin b" "b \<noteq> 0" by blast
  have "\<exists>c. roughly_equal fps (Fin b) epsilon_default = Inr c"
    using b(2) by (simp add: roughly_equal_def py_truediv_def)
  then obtain c where c: "roughly_equal fps (Fin b) epsilon_default = Inr c" by blast
  show ?case
    using ih by (cases c; cases "fne fps (Fin (of_int x))") (simp_all add: b(1) c)
qed

lemma adjust_fps_total: "\<exists>y. adjust_fps fps = Inr y"
proof -
  have "set [23, 24, 25, 30, 50] \<subseteq> {23, 24, 25, 30, 50 :: int}" by simp
  from adjust_fps_loop_total[OF this] show ?thesis unfolding adjust_fps_def .
qed






section \<open>Properties of still images\<close>

lemma ImageClip_init_2d:
  "ImageClip_init imread (Array (Arr2 h w rows)) m tr fa d
     = Inr (set_image (Arr2 h w rows) (VideoClip_init m d))"
  by (subst ImageClip_init.simps) simp

lemma ImageClip_init_rgba:
  "ImageClip_init imread (Array (Arr3 h w 4 rows)) False True False d
     = Inr (set_image (first_channels 3 h w 4 rows)
              (set_mask (Some (set_image (channel_over_255 3 h w rows) (VideoClip_init True None)))
                 (VideoClip_init False d)))"
  by (subst ImageClip_init.simps) (simp add: ImageClip_init_2d channel_over_255_def)

lemma time_transform_default:
  "time_transform sub_tt c f None kd
     = Inr (set_audio (map_option (sub_tt f) (clip_audio c))
              (set_mask (map_option (sub_tt f) (clip_mask c)) c))"
  by (cases c) (auto simp: time_transform_def getattr_def setattr_clip_def split: option.splits)

lemma ImageClip_init_path:
  "ImageClip_init imread (Path p) m tr fa d
     = (case imread p of Inl e \<Rightarrow> Inl e | Inr a \<Rightarrow> ImageClip_init imread (Array a) m tr fa d)"
proof (cases "imread p")
  case (Inl e)
  then show ?thesis by (subst ImageClip_init.simps) simp
next
  case (Inr a)
  note L = ImageClip_init.simps[of imread "Path p" m tr fa d]
  note R = ImageClip_init.simps[of imread "Array a" m tr fa d]
  have "ImageClip_init imread (Path p) m tr fa d = ImageClip_init imread (Array a) m tr fa d"
    unfolding L R by (simp only: Inr img_arg.case)
  then show ?thesis using Inr by simp
qed

lemma ImageClip_init_frame:
  assumes "ImageClip_init imread img_in m tr fa d = Inr c"
  shows "\<exists>a. clip_img c = Some a \<and> clip_make_frame c = Some (\<lambda>t. a) \<and> clip_size c = Some (shape_size a)"
proof -
  note S = ImageClip_init.simps[of imread img_in m tr fa d]
  have "\<exists>a s. c = set_image a s"
    using assms unfolding S Let_def by (simp split: sum.splits prod.splits) blast
  then obtain a s where "c = set_image a s" by blast
  then show ?thesis by (cases s) simp
qed

text \<open>
  Claim C8. Constructing an ImageClip from a 4-channel 3D buffer with the default options
  (\<open>is_mask=False\<close>, \<open>transparent=True\<close>, \<open>fromalpha=False\<close>) succeeds; the main buffer has
  3 channels and equals the first 3 channels of the input at every pixel; the clip carries
  a mask clip flagged \<open>is_mask\<close> whose 2D buffer is the input's channel 3 divided by 255 at
  every pixel.
\<close>

theorem ImageClip_rgba_mask:
  assumes "wf_ndarray (Arr3 h w 4 rows)"
  shows "\<exists>c m buf mbuf.
           ImageClip_init imread (Array (Arr3 h w 4 rows)) False True False d = Inr c
         \<and> clip_img c = Some (Arr3 h w 3 buf) \<and> wf_ndarray (Arr3 h w 3 buf)
         \<and> (\<forall>i < h. \<forall>j < w. \<forall>k < 3. buf ! i ! j ! k = rows ! i ! j ! k)
         \<and> clip_mask c = Some m \<and> clip_is_mask m
         \<and> clip_img m = Some (Arr2 h w mbuf) \<and> wf_ndarray (Arr2 h w mbuf)
         \<and> (\<forall>i < h. \<forall>j < w. mbuf ! i ! j = rows ! i ! j ! 3 / 255)"
proof -
  from assms have len: "length rows = h" and row: "\<And>r. r \<in> set rows \<Longrightarrow> length r = w"
    and px: "\<And>r p. r \<in> set rows \<Longrightarrow> p \<in> set r \<Longrightarrow> length p = 4"
    by (auto simp: wf_ndarray_def)
  define buf where "buf = map (map (take 3)) rows"
  define mbuf where "mbuf = map (map (\<lambda>px. 1.0 * (px ! 3) / 255)) rows"
  define m where "m = set_image (channel_over_255 3 h w rows) (VideoClip_init True None)"
  define c where "c = set_image (first_channels 3 h w 4 rows) (set_mask (Some m) (VideoClip_init False d))"
  have 1: "ImageClip_init imread (Array (Arr3 h w 4 rows)) False True False d = Inr c"
    unfolding c_def m_def by (rule ImageClip_init_rgba)
  have 2: "clip_img c = Some (Arr3 h w 3 buf)"
    by (simp add: c_def buf_def VideoClip_init_def first_channels_def)
  have 3: "wf_ndarray (Arr3 h w 3 buf)"
    using len row px by (auto simp: wf_ndarray_def buf_def)
  have 4: "buf ! i ! j ! k = rows ! i ! j ! k" if "i < h" "j < w" "k < 3" for i j k
  proof -
    have "rows ! i \<in> set rows" using that len by simp
    then have "length (rows ! i) = w" by (rule row)
    then show ?thesis using that len by (simp add: buf_def)
  qed
  have 5: "clip_mask c = Some m" by (simp add: c_def VideoClip_init_def)
  have 6: "clip_is_mask m" by (simp add: m_def VideoClip_init_def)
  have 7: "clip_img m = Some (Arr2 h w mbuf)"
    by (simp add: m_def mbuf_def VideoClip_init_def channel_over_255_def)
  have 8: "wf_ndarray (Arr2 h w mbuf)"
    using len row by (auto simp: wf_ndarray_def mbuf_def)
  have 9: "mbuf ! i ! j = rows ! i ! j ! 3 / 255" if "i < h" "j < w" for i j
  proof -
    have "rows ! i \<in> set rows" using that len by simp
    then have "length (rows ! i) = w" by (rule row)
    then show ?thesis using that len by (simp add: mbuf_def)
  qed
  have A: "\<forall>i < h. \<forall>j < w. \<forall>k < 3. buf ! i ! j ! k = rows ! i ! j ! k" using 4 by blast
  have B: "\<forall>i < h. \<forall>j < w. mbuf ! i ! j = rows ! i ! j ! 3 / 255" using 9 by blast
  show ?thesis
    apply (rule exI[of _ c], rule exI[of _ m], rule exI[of _ buf], rule exI[of _ mbuf])
    using 1 2 3 A 5 6 7 8 B by (intro conjI)
qed

theorem ImageClip_rgba_mask_witness:
  "wf_ndarray (Arr3 1 2 4 [[[10, 20, 30, 255], [40, 50, 60, 51]]])
   \<and> (\<exists>c m buf mbuf.
           ImageClip_init (\<lambda>p. Inl (IOError p))
               (Array (Arr3 1 2 4 [[[10, 20, 30, 255], [40, 50, 60, 51]]])) False True False None = Inr c
         \<and> clip_img c = Some (Arr3 1 2 3 buf) \<and> wf_ndarray (Arr3 1 2 3 buf)
         \<and> (\<forall>i < 1. \<forall>j < 2. \<forall>k < 3. buf ! i ! j ! k = [[[10, 20, 30, 255], [40, 50, 60, 51]]] ! i ! j ! k)
         \<and> clip_mask c = Some m \<and> clip_is_mask m
         \<and> clip_img m = Some (Arr2 1 2 mbuf) \<and> wf_ndarray (Arr2 1 2 mbuf)
         \<and> (\<forall>i < 1. \<forall>j < 2. mbuf ! i ! j = [[[10, 20, 30, 255], [40, 50, 60, 51]]] ! i ! j ! 3 / 255))"
proof (rule conjI)
  show wf: "wf_ndarray (Arr3 1 2 4 [[[10, 20, 30, 255], [40, 50, 60, 51]]])"
    by (simp add: wf_ndarray_def)
  show "\<exists>c m buf mbuf.
           ImageClip_init (\<lambda>p. Inl (IOError p))
               (Array (Arr3 1 2 4 [[[10, 20, 30, 255], [40, 50, 60, 51]]])) False True False None = Inr c
         \<and> clip_img c = Some (Arr3 1 2 3 buf) \<and> wf_ndarray (Arr3 1 2 3 buf)
         \<and> (\<forall>i < 1. \<forall>j < 2. \<forall>k < 3. buf ! i ! j ! k = [[[10, 20, 30, 255], [40, 50, 60, 51]]] ! i ! j ! k)
         \<and> clip_mask c = Some m \<and> clip_is_mask m
         \<and> clip_img m = Some (Arr2 1 2 mbuf) \<and> wf_ndarray (Arr2 1 2 mbuf)
         \<and> (\<forall>i < 1. \<forall>j < 2. mbuf ! i ! j = [[[10, 20, 30, 255], [40, 50, 60, 51]]] ! i ! j ! 3 / 255)"
    by (rule ImageClip_rgba_mask[OF wf])
qed

text \<open>
  Claim C9. \<open>time_transform\<close> with the default \<open>apply_to\<close> returns a clip whose frame function,
  image buffer, size, mask flag and duration are those of the original, for every time
  function; the mask and the audio, when present, are replaced by their own time
  transforms. For a clip made by the constructor the frame function still returns the
  one image at every time.
\<close>

theorem time_transform_still:
  "(\<exists>c'. time_transform sub_tt c f None kd = Inr c'
        \<and> clip_make_frame c' = clip_make_frame c \<and> clip_img c' = clip_img c
        \<and> clip_size c' = clip_size c \<and> clip_is_mask c' = clip_is_mask c
        \<and> clip_duration c' = clip_duration c
        \<and> clip_mask c' = map_option (sub_tt f) (clip_mask c)
        \<and> clip_audio c' = map_option (sub_tt f) (clip_audio c)
        \<and> (ImageClip_init imread img_in m tr fa d = Inr c
             \<longrightarrow> (\<exists>a. clip_img c' = Some a \<and> (\<forall>t. the (clip_make_frame c') t = a))))"
proof -
  define c' where "c' = set_audio (map_option (sub_tt f) (clip_audio c))
              (set_mask (map_option (sub_tt f) (clip_mask c)) c)"
  have 1: "time_transform sub_tt c f None kd = Inr c'"
    unfolding c'_def by (rule time_transform_default)
  have 2: "clip_make_frame c' = clip_make_frame c" "clip_img c' = clip_img c"
    "clip_size c' = clip_size c" "clip_is_mask c' = clip_is_mask c"
    "clip_duration c' = clip_duration c"
    "clip_mask c' = map_option (sub_tt f) (clip_mask c)"
    "clip_audio c' = map_option (sub_tt f) (clip_audio c)"
    unfolding c'_def by (cases c; simp)+
  have 3: "ImageClip_init imread img_in m tr fa d = Inr c
             \<longrightarrow> (\<exists>a. clip_img c' = Some a \<and> (\<forall>t. the (clip_make_frame c') t = a))"
  proof
    assume "ImageClip_init imread img_in m tr fa d = Inr c"
    from ImageClip_init_frame[OF this] obtain a where
      "clip_img c = Some a" "clip_make_frame c = Some (\<lambda>t. a)" by blast
    then show "\<exists>a. clip_img c' = Some a \<and> (\<forall>t. the (clip_make_frame c') t = a)"
      using 2 by simp
  qed
  show ?thesis
    apply (rule exI[of _ c'])
    using 1 2 3 by (intro conjI)
qed

theorem time_transform_still_witness:
  "ImageClip_init (\<lambda>p. Inl (IOError p)) (Array (Arr2 1 2 [[0, 1]])) True True False None
     = Inr (set_image (Arr2 1 2 [[0, 1]]) (VideoClip_init True None))
   \<and> (\<exists>c'. time_transform (\<lambda>f a. a) (set_image (Arr2 1 2 [[0, 1]]) (VideoClip_init True None))
               (\<lambda>t. 2 * t) None False = Inr c'
          \<and> clip_img c' = Some (Arr2 1 2 [[0, 1]])
          \<and> (\<forall>t. the (clip_make_frame c') t = Arr2 1 2 [[0, 1]]))"
proof -
  define c where "c = set_image (Arr2 1 2 [[0, 1]]) (VideoClip_init True None)"
  have e: "ImageClip_init (\<lambda>p. Inl (IOError p)) (Array (Arr2 1 2 [[0, 1]])) True True False None = Inr c"
    unfolding c_def by (rule ImageClip_init_2d)
  from time_transform_still[of "\<lambda>f a. a" c "\<lambda>t. 2 * t" False "\<lambda>p. Inl (IOError p)"
          "Array (Arr2 1 2 [[0, 1]])" True True False None]
  obtain c' where t: "time_transform (\<lambda>f a. a) c (\<lambda>t. 2 * t) None False = Inr c'"
    and i: "clip_img c' = clip_img c"
    and f: "ImageClip_init (\<lambda>p. Inl (IOError p)) (Array (Arr2 1 2 [[0, 1]])) True True False None = Inr c
             \<longrightarrow> (\<exists>a. clip_img c' = Some a \<and> (\<forall>t. the (clip_make_frame c') t = a))"
    by (elim exE conjE)
  have ci: "clip_img c = Some (Arr2 1 2 [[0, 1]])"
    by (simp add: c_def VideoClip_init_def)
  from f e obtain a where a: "clip_img c' = Some a" "\<forall>t. the (clip_make_frame c') t = a"
    by (elim impE exE conjE)
  from a(1) i ci have "a = Arr2 1 2 [[0, 1]]" by simp
  then have "clip_img c' = Some (Arr2 1 2 [[0, 1]]) \<and> (\<forall>t. the (clip_make_frame c') t = Arr2 1 2 [[0, 1]])"
    using a by simp
  then show ?thesis using e t unfolding c_def by (intro conjI exI[of _ c']) simp_all
qed

lemma ImageClip_init_rgb:
  "ImageClip_init imread (Array (Arr3 h w 3 rows)) False tr fa d
     = Inr (set_image (Arr3 h w 3 rows) (VideoClip_init False d))"
  by (subst ImageClip_init.simps) simp

lemma rotate_no_exif:
  "getexif im = [] \<Longrightarrow> rotate TAGS getexif im_rotate im = im"
  by (simp add: rotate_def)

lemma rotate_orientation:
  assumes "getexif im \<noteq> []" "index_of ''Orientation'' (map snd TAGS) = Some i"
    and "map_of (getexif im) (map fst TAGS ! i) = k"
  shows "rotate TAGS getexif im_rotate im =
           (if k = Some 3 then im_rotate 180 True im
            else if k = Some 6 then im_rotate 270 True im
            else if k = Some 8 then im_rotate 90 True im
            else im)"
  using assms by (simp add: rotate_def Let_def)

text \<open>
  Claim C1. The constructor, given a path, passes it to the loader \<open>imread\<close> and goes on
  with the buffer that comes back: \<open>rotate\<close> is never called and no orientation code is
  read. For a file whose 1-by-2 raster the loader returns as it is, and whose orientation
  code is 6, the clip holds the raster unrotated, of size (2, 1), although \<open>rotate\<close> applied
  to that image would turn it by 270 degrees with expansion.
\<close>

theorem ImageClip_path_not_rotated:
  "ImageClip_init (\<lambda>p. Inr (Arr3 1 2 3 [[[1, 2, 3], [4, 5, 6]]])) (Path ''photo.jpg'')
       False True False None
     = ImageClip_init (\<lambda>p. Inr (Arr3 1 2 3 [[[1, 2, 3], [4, 5, 6]]]))
         (Array (Arr3 1 2 3 [[[1, 2, 3], [4, 5, 6]]])) False True False None
   \<and> (\<exists>c. ImageClip_init (\<lambda>p. Inr (Arr3 1 2 3 [[[1, 2, 3], [4, 5, 6]]])) (Path ''photo.jpg'')
              False True False None = Inr c
          \<and> clip_img c = Some (Arr3 1 2 3 [[[1, 2, 3], [4, 5, 6]]])
          \<and> clip_size c = Some (2, 1))
   \<and> rotate [(274, ''Orientation'')] snd im_rotate (Arr3 1 2 3 [[[1, 2, 3], [4, 5, 6]]], [(274, 6)])
       = im_rotate 270 True (Arr3 1 2 3 [[[1, 2, 3], [4, 5, 6]]], [(274, 6)])"
proof (intro conjI)
  define a where "a = Arr3 1 2 3 [[[1, 2, 3], [4, 5, 6]]]"
  have p: "ImageClip_init (\<lambda>p. Inr a) (Path ''photo.jpg'') False True False None
             = ImageClip_init (\<lambda>p. Inr a) (Array a) False True False None"
    by (simp add: ImageClip_init_path)
  then show "ImageClip_init (\<lambda>p. Inr (Arr3 1 2 3 [[[1, 2, 3], [4, 5, 6]]])) (Path ''photo.jpg'')
       False True False None
     = ImageClip_init (\<lambda>p. Inr (Arr3 1 2 3 [[[1, 2, 3], [4, 5, 6]]]))
         (Array (Arr3 1 2 3 [[[1, 2, 3], [4, 5, 6]]])) False True False None"
    unfolding a_def .
  have "ImageClip_init (\<lambda>p. Inr a) (Path ''photo.jpg'') False True False None
          = Inr (set_image a (VideoClip_init False None))"
    unfolding p unfolding a_def by (rule ImageClip_init_rgb)
  then show "\<exists>c. ImageClip_init (\<lambda>p. Inr (Arr3 1 2 3 [[[1, 2, 3], [4, 5, 6]]])) (Path ''photo.jpg'')
              False True False None = Inr c
          \<and> clip_img c = Some (Arr3 1 2 3 [[[1, 2, 3], [4, 5, 6]]])
          \<and> clip_size c = Some (2, 1)"
    unfolding a_def by (simp add: VideoClip_init_def shape_size_def)
  show "rotate [(274, ''Orientation'')] snd im_rotate (Arr3 1 2 3 [[[1, 2, 3], [4, 5, 6]]], [(274, 6)])
       = im_rotate 270 True (Arr3 1 2 3 [[[1, 2, 3], [4, 5, 6]]], [(274, 6)])"
    by (simp add: rotate_def)
qed

section \<open>Properties of the metadata extraction\<close>

lemma video_infos_found:
  "video_infos E filename src lines lv meta = Inr meta' \<Longrightarrow> video_found meta' = video_found meta"
  unfolding video_infos_def Let_def
  by (auto split: if_splits sum.splits prod.splits)

lemma video_infos_audio:
  "video_infos E filename src lines lv meta = Inr meta' \<Longrightarrow> audio_fps meta' = audio_fps meta \<and> audio_found meta' = audio_found meta"
  unfolding video_infos_def Let_def
  by (auto split: if_splits sum.splits prod.splits)

lemma ffmpeg_parse_infos_audio:
  assumes "ffmpeg_parse_infos E filename pr cd src df = Inr meta"
  shows "\<exists>raw. get_raw_metadata E filename = Inr raw
           \<and> audio_found meta = fst (parse_audio_infos (splitlines raw))
           \<and> audio_fps meta = audio_rate_of (snd (parse_audio_infos (splitlines raw)))"
  using assms unfolding ffmpeg_parse_infos_def Let_def
  by (auto split: if_splits sum.splits prod.splits)

lemma audio_rate_of_not_unknown: "audio_rate_of v \<noteq> RateStr s"
  by (cases v) (simp_all add: audio_rate_of_def)

lemma ffmpeg_parse_infos_never_unknown:
  "ffmpeg_parse_infos E filename pr cd src df = Inr meta \<Longrightarrow> audio_fps meta \<noteq> RateStr ''unknown''"
  using ffmpeg_parse_infos_audio audio_rate_of_not_unknown by metis

lemma ffmpeg_parse_infos_no_video:
  assumes "ffmpeg_parse_infos E filename pr cd src df = Inr meta" "\<not> video_found meta"
  shows "video_fps meta = None \<and> video_n_frames meta = None \<and> video_duration meta = None
         \<and> video_rotation meta = 0 \<and> video_size meta = None"
  using assms unfolding ffmpeg_parse_infos_def Let_def
  by (auto simp: VideoMetaData_default_def dest: video_infos_found split: if_splits sum.splits prod.splits)

text \<open>
  Claim C2. When no output line contains the duration keyword, \<open>parse_duration\<close> indexes
  an empty list: the result is an IndexError, not the duration zero, for normal media and
  for GIF input alike, and the whole extraction fails with it.
\<close>

theorem parse_duration_missing_keyword:
  "parse_duration E False [''x.bin: Invalid data found when processing input''] = Inl IndexError
   \<and> parse_duration E True [''x.gif: Invalid data found when processing input''] = Inl IndexError
   \<and> ffmpeg_parse_infos
         (env_with_output (''x.bin: Invalid data found when processing input''))
         ''x.bin'' False True ''tbr'' True = Inl IndexError"
proof (intro conjI)
  show "parse_duration E False [''x.bin: Invalid data found when processing input''] = Inl IndexError"
    by (simp add: parse_duration_def)
  show "parse_duration E True [''x.gif: Invalid data found when processing input''] = Inl IndexError"
    by (simp add: parse_duration_def)
  show "ffmpeg_parse_infos
         (env_with_output (''x.bin: Invalid data found when processing input''))
         ''x.bin'' False True ''tbr'' True = Inl IndexError"
    by code_simp
qed

text \<open>
  Claim C4. The extraction assigns to \<open>audio_fps\<close> what \<open>parse_audio_infos\<close> returns: for an
  output without an audio line, and for an audio line without a sample-rate token, the
  returned record holds \<open>None\<close> there, not the string \<open>'unknown'\<close> it was initialised with.
\<close>

theorem ffmpeg_parse_infos_audio_fps_none:
  "ffmpeg_parse_infos
      (env_with_output (''  Duration: 00:00:01.00, start: 0.0''))
      ''a.bin'' False True ''tbr'' True
     = Inr (VideoMetaData_default\<lparr>duration := Some (Fin 1), audio_found := False, audio_fps := RateNone\<rparr>)
   \<and> ffmpeg_parse_infos
      (env_with_output (''  Duration: 00:00:01.00'' @ [CHR 0x0A] @ ''  Stream #0:0: Audio: aac, stereo''))
      ''a.aac'' False True ''tbr'' True
     = Inr (VideoMetaData_default\<lparr>duration := Some (Fin 1), audio_found := True, audio_fps := RateNone\<rparr>)
   \<and> RateNone \<noteq> RateStr ''unknown''"
  by code_simp

text \<open>
  Claim C5, as stated, fails for a zero rate: the token \<open>0 tbr\<close> is present and its value
  is at most 1000, yet the result is the fps value.
\<close>

theorem parse_video_fps_zero_tbr:
  "get_tbr '' Video: h264, 64x48, 25 fps, 0 tbr'' = Inr (Fin 0)
   \<and> fle (Fin 0) (Fin 1000)
   \<and> parse_video_fps '' Video: h264, 64x48, 25 fps, 0 tbr'' ''tbr'' = Inr (Fin 25)"
  by code_simp

text \<open>
  Claim C5, amended. With \<open>fps_source = 'tbr'\<close>: if the tbr token parses to a non-zero
  value of at most 1000 the result is that value; otherwise, if the fps token parses to a
  non-zero value of at most 1000 the result is that value; otherwise the result is 30.
  The function always returns a rate.
\<close>

theorem parse_video_fps_tbr:
  "(\<forall>v. get_tbr line = Inr v \<and> v \<noteq> Fin 0 \<and> fle v (Fin 1000)
         \<longrightarrow> parse_video_fps line ''tbr'' = Inr v)
   \<and> (\<forall>w. \<not> (\<exists>v. get_tbr line = Inr v \<and> v \<noteq> Fin 0 \<and> fle v (Fin 1000))
           \<and> get_fps line = Inr w \<and> w \<noteq> Fin 0 \<and> fle w (Fin 1000)
         \<longrightarrow> parse_video_fps line ''tbr'' = Inr w)
   \<and> (\<not> (\<exists>v. get_tbr line = Inr v \<and> v \<noteq> Fin 0 \<and> fle v (Fin 1000))
        \<and> \<not> (\<exists>w. get_fps line = Inr w \<and> w \<noteq> Fin 0 \<and> fle w (Fin 1000))
         \<longrightarrow> parse_video_fps line ''tbr'' = Inr (Fin 30))
   \<and> (\<exists>r. parse_video_fps line ''tbr'' = Inr r)"
  unfolding parse_video_fps_def Let_def attempt_def fps_usable_def truthy_def
  by (cases "get_tbr line"; cases "get_fps line"; simp)

theorem parse_video_fps_tbr_witness:
  "get_tbr '' Video: h264, 64x48, 5000 fps, 23.98 tbr'' = Inr (Fin (6749769941521531 / 281474976710656))
   \<and> parse_video_fps '' Video: h264, 64x48, 5000 fps, 23.98 tbr'' ''tbr''
       = Inr (Fin (6749769941521531 / 281474976710656))
   \<and> get_tbr '' Video: h264, 64x48, 25 fps, 12k tbr'' = Inr (Fin 12000)
   \<and> get_fps '' Video: h264, 64x48, 25 fps, 12k tbr'' = Inr (Fin 25)
   \<and> parse_video_fps '' Video: h264, 64x48, 25 fps, 12k tbr'' ''tbr'' = Inr (Fin 25)
   \<and> get_tbr '' Video: h264, 64x48, 2k fps'' = Inl AttributeError
   \<and> get_fps '' Video: h264, 64x48, 2k fps'' = Inr (Fin 2000)
   \<and> parse_video_fps '' Video: h264, 64x48, 2k fps'' ''tbr'' = Inr (Fin 30)"
proof -
  have a1: "get_tbr '' Video: h264, 64x48, 5000 fps, 23.98 tbr''
              = Inr (Fin (6749769941521531 / 281474976710656))"
    by code_simp
  have b1: "get_tbr '' Video: h264, 64x48, 25 fps, 12k tbr'' = Inr (Fin 12000)"
    by code_simp
  have b2: "get_fps '' Video: h264, 64x48, 25 fps, 12k tbr'' = Inr (Fin 25)"
    by code_simp
  have c1: "get_tbr '' Video: h264, 64x48, 2k fps'' = Inl AttributeError"
    by code_simp
  have c2: "get_fps '' Video: h264, 64x48, 2k fps'' = Inr (Fin 2000)"
    by code_simp
  have f: "fle (Fin (6749769941521531 / 281474976710656)) (Fin 1000)" "fle (Fin 25) (Fin 1000)"
    "\<not> fle (Fin 12000) (Fin 1000)" "\<not> fle (Fin 2000) (Fin 1000)"
    by (simp_all add: fle_def feq_def)
  have "parse_video_fps '' Video: h264, 64x48, 5000 fps, 23.98 tbr'' ''tbr''
          = Inr (Fin (6749769941521531 / 281474976710656))"
    using parse_video_fps_tbr[of "'' Video: h264, 64x48, 5000 fps, 23.98 tbr''"] a1 f by simp
  moreover have "parse_video_fps '' Video: h264, 64x48, 25 fps, 12k tbr'' ''tbr'' = Inr (Fin 25)"
    using parse_video_fps_tbr[of "'' Video: h264, 64x48, 25 fps, 12k tbr''"] b1 b2 f by simp
  moreover have "parse_video_fps '' Video: h264, 64x48, 2k fps'' ''tbr'' = Inr (Fin 30)"
    using parse_video_fps_tbr[of "'' Video: h264, 64x48, 2k fps''"] c1 c2 f by simp
  ultimately show ?thesis using a1 b1 b2 c1 c2 by (intro conjI)
qed






section \<open>Properties of the size and rotation parsers\<close>

lemma is_digit_digits: "is_digit c \<longleftrightarrow> c \<in> set digits"
  by (simp add: is_digit_def digits_def)

lemma takeWhile_all_then:
  "\<forall>c \<in> set w. P c \<Longrightarrow> \<not> P t \<Longrightarrow> takeWhile P (w @ t # rest) = w"
  by (induction w) auto

lemma matches_Seq_hd:
  "matches a s = (g1, r1) # ms \<Longrightarrow> matches b r1 = (g2, r2) # ms2
     \<Longrightarrow> \<exists>rest. matches (Seq a b) s = (g1 @ g2, r2) # rest"
  by simp

lemma matches_StarCls_hd:
  assumes "\<forall>c \<in> set w. c \<in> set cl" "t \<notin> set cl"
  shows "\<exists>rest. matches (StarCls cl) (w @ t # post) = ([], t # post) # rest"
proof -
  have tw: "takeWhile (\<lambda>c. c \<in> set cl) (w @ t # post) = w"
    using assms by (intro takeWhile_all_then) auto
  have "rev [0 ..< Suc (length w)] = length w # rev [0 ..< length w]" by simp
  then show ?thesis by (simp add: tw del: upt_Suc)
qed

lemma re_match_at_start: "re_match_at r i s = Some m \<Longrightarrow> m_start m = i"
  by (auto simp: re_match_at_def split: list.splits)

lemma re_search_from_found:
  "re_search_from r i s = Some m
     \<Longrightarrow> \<exists>k \<le> length s. m_start m = i + k \<and> re_match_at r (i + k) (drop k s) = Some m"
proof (induction s arbitrary: i)
  case Nil
  then show ?case by (auto dest: re_match_at_start)
next
  case (Cons c cs)
  show ?case
  proof (cases "re_match_at r i (c # cs)")
    case (Some m')
    with Cons.prems have "m' = m" by simp
    with Some have "m_start m = i + 0 \<and> re_match_at r (i + 0) (drop 0 (c # cs)) = Some m"
      by (auto dest: re_match_at_start)
    then show ?thesis by blast
  next
    case None
    with Cons.prems have "re_search_from r (Suc i) cs = Some m" by simp
    from Cons.IH[OF this] obtain k where
      k: "k \<le> length cs" "m_start m = Suc i + k" "re_match_at r (Suc i + k) (drop k cs) = Some m"
      by blast
    then have "Suc k \<le> length (c # cs) \<and> m_start m = i + Suc k
               \<and> re_match_at r (i + Suc k) (drop (Suc k) (c # cs)) = Some m" by simp
    then show ?thesis by blast
  qed
qed

lemma re_search_at_offset:
  assumes "re_search r (pre @ s) = Some m" "m_start m = length pre"
  shows "re_match_at r (length pre) s = Some m"
proof -
  from re_search_from_found[OF assms(1)[unfolded re_search_def]]
  obtain k where "m_start m = 0 + k" "re_match_at r (0 + k) (drop k (pre @ s)) = Some m" by blast
  with assms(2) show ?thesis by simp
qed

lemma matches_Seq_head:
  assumes "\<exists>ms. matches a s = (g1, r1) # ms" "\<exists>ms. matches b r1 = (g2, r2) # ms"
  shows "\<exists>ms. matches (Seq a b) s = (g1 @ g2, r2) # ms"
  using assms by auto

lemma matches_Lit_head: "\<exists>ms. matches (Lit t) (t @ s) = ([], s) # ms"
  by simp

lemma matches_re_size_token:
  assumes w: "\<forall>c \<in> set w. is_digit c" and h: "\<forall>c \<in> set h. is_digit c"
    and t: "t = CHR '','' \<or> t = CHR '' ''"
  shows "\<exists>ms. matches re_size ('' '' @ w @ ''x'' @ h @ t # post) = ([[t]], post) # ms"
proof -
  have xd: "CHR ''x'' \<notin> set digits" by (simp add: digits_def)
  have td: "t \<notin> set digits" using t by (auto simp: digits_def)
  have wd: "\<forall>c \<in> set w. c \<in> set digits" using w by (simp add: is_digit_digits)
  have hd: "\<forall>c \<in> set h. c \<in> set digits" using h by (simp add: is_digit_digits)
  let ?G = "Group (Alt (Lit '','') (Lit '' ''))"
  have g: "\<exists>ms. matches ?G (t # post) = ([[t]], post) # ms"
    using t by auto
  have s2: "\<exists>ms. matches (StarCls digits) (h @ t # post) = ([], t # post) # ms"
    by (rule matches_StarCls_hd[OF hd td])
  have q1: "\<exists>ms. matches (Seq (StarCls digits) ?G) (h @ t # post) = ([] @ [[t]], post) # ms"
    by (rule matches_Seq_head[OF s2 g])
  have lx: "\<exists>ms. matches (Lit ''x'') (''x'' @ h @ t # post) = ([], h @ t # post) # ms"
    by (rule matches_Lit_head)
  have q2: "\<exists>ms. matches (Seq (Lit ''x'') (Seq (StarCls digits) ?G)) (''x'' @ h @ t # post)
              = ([] @ [] @ [[t]], post) # ms"
    by (rule matches_Seq_head[OF lx q1])
  have s1: "\<exists>ms. matches (StarCls digits) (w @ CHR ''x'' # h @ t # post)
              = ([], CHR ''x'' # h @ t # post) # ms"
    by (rule matches_StarCls_hd[OF wd xd])
  have q3: "\<exists>ms. matches (Seq (StarCls digits) (Seq (Lit ''x'') (Seq (StarCls digits) ?G)))
               (w @ CHR ''x'' # h @ t # post) = ([] @ [] @ [] @ [[t]], post) # ms"
    using matches_Seq_head[OF s1] q2 by (simp only: append_Cons append_Nil)
  have ls: "\<exists>ms. matches (Lit '' '') ('' '' @ w @ CHR ''x'' # h @ t # post)
              = ([], w @ CHR ''x'' # h @ t # post) # ms"
    by (rule matches_Lit_head)
  have q4: "\<exists>ms. matches (Seq (Lit '' '') (Seq (StarCls digits) (Seq (Lit ''x'')
               (Seq (StarCls digits) ?G))))
               ('' '' @ w @ CHR ''x'' # h @ t # post) = ([] @ [] @ [] @ [] @ [[t]], post) # ms"
    by (rule matches_Seq_head[OF ls q3])
  have e: "re_size = Seq (Lit '' '') (Seq (StarCls digits) (Seq (Lit ''x'')
               (Seq (StarCls digits) ?G)))"
    by (simp add: re_size_def)
  have l: "'' '' @ w @ ''x'' @ h @ t # post = '' '' @ w @ CHR ''x'' # h @ t # post" by simp
  show ?thesis unfolding e l using q4 by (simp only: append_Nil)
qed

lemma digitpart_ok_digits:
  "s \<noteq> [] \<Longrightarrow> \<forall>c \<in> set s. is_digit c \<Longrightarrow> digitpart_ok s"
proof (induction s rule: digitpart_ok.induct)
  case (3 c d cs)
  then have "d \<noteq> CHR ''_''" by (auto simp: is_digit_def)
  with 3 show ?case by simp
qed simp_all

lemma digitpart_digits:
  "s \<noteq> [] \<Longrightarrow> \<forall>c \<in> set s. is_digit c \<Longrightarrow> digitpart s = Some s"
  by (simp add: digitpart_def digitpart_ok_digits filter_id_conv)

lemma digit_not_space: "is_digit c \<Longrightarrow> \<not> is_space c"
  by (auto simp: is_digit_def is_space_def)

lemma strip_digits:
  assumes "s \<noteq> []" "\<forall>c \<in> set s. is_digit c"
  shows "strip s = s" "strip (CHR '' '' # s) = s"
proof -
  have a: "dropWhile is_space s = s"
    using assms by (cases s) (auto dest: digit_not_space)
  have "rev s \<noteq> []" "\<forall>c \<in> set (rev s). is_digit c" using assms by auto
  then have b: "dropWhile is_space (rev s) = rev s"
    by (cases "rev s") (auto dest: digit_not_space)
  show "strip s = s" by (simp add: strip_def a b)
  have "is_space CHR '' ''" by (simp add: is_space_def)
  then show "strip (CHR '' '' # s) = s" by (simp add: strip_def a b)
qed

lemma split_sign_digits:
  "s \<noteq> [] \<Longrightarrow> \<forall>c \<in> set s. is_digit c \<Longrightarrow> split_sign s = (False, s)"
  by (cases s) (auto simp: split_sign_def is_digit_def)

lemma py_int_digits:
  assumes "s \<noteq> []" "\<forall>c \<in> set s. is_digit c" "length s \<le> 4300"
  shows "py_int s = Inr (int_of_digits s)" "py_int (CHR '' '' # s) = Inr (int_of_digits s)"
  using assms
  by (simp_all add: py_int_def int_max_str_digits_def strip_digits split_sign_digits digitpart_digits)

lemma py_int_too_long:
  assumes "s \<noteq> []" "\<forall>c \<in> set s. is_digit c" "4300 < length s"
  shows "py_int s = Inl ValueError" "py_int (CHR '' '' # s) = Inl ValueError"
  using assms
  by (simp_all add: py_int_def int_max_str_digits_def strip_digits split_sign_digits digitpart_digits)

lemma split_chr_no_sep: "sep \<notin> set s \<Longrightarrow> split_chr sep s = [s]"
  by (induction s) auto

lemma split_chr_one_sep:
  "sep \<notin> set a \<Longrightarrow> sep \<notin> set b \<Longrightarrow> split_chr sep (a @ sep # b) = [a, b]"
  by (induction a) (auto simp: split_chr_no_sep)

lemma digit_not_x: "is_digit c \<Longrightarrow> c \<noteq> CHR ''x''"
  by (auto simp: is_digit_def)

lemma parse_video_size_at_token:
  assumes w: "w \<noteq> []" "\<forall>c \<in> set w. is_digit c" "length w \<le> 4300"
    and h: "h \<noteq> []" "\<forall>c \<in> set h. is_digit c" "length h \<le> 4300"
    and t: "t = CHR '','' \<or> t = CHR '' ''"
    and s: "re_search re_size (pre @ '' '' @ w @ ''x'' @ h @ t # post) = Some m"
           "m_start m = length pre"
  shows "parse_video_size (pre @ '' '' @ w @ ''x'' @ h @ t # post)
           = Inr (int_of_digits w, int_of_digits h)"
proof -
  define tok where "tok = '' '' @ w @ ''x'' @ h @ t # post"
  define line where "line = pre @ tok"
  have line: "pre @ '' '' @ w @ ''x'' @ h @ t # post = line" by (simp add: line_def tok_def)
  from s have "re_match_at re_size (length pre) tok = Some m"
    unfolding tok_def[symmetric] by (rule re_search_at_offset)
  moreover from matches_re_size_token[OF w(2) h(2) t, of post] obtain ms where
    "matches re_size tok = ([[t]], post) # ms" unfolding tok_def by blast
  ultimately have m: "m = \<lparr>m_start = length pre, m_end = length pre + (length tok - length post),
                            m_groups = [[t]]\<rparr>"
    by (simp add: re_match_at_def)
  have e: "m_end m - 1 = length pre + (length w + length h + 2)" "m_start m = length pre"
    by (simp_all add: m tok_def)
  have sl: "slice line (m_start m) (m_end m - 1) = (CHR '' '' # w) @ CHR ''x'' # h"
    unfolding e by (simp add: slice_def line_def tok_def)
  have "CHR ''x'' \<notin> set (CHR '' '' # w)" "CHR ''x'' \<notin> set h"
    using w(2) h(2) by (auto dest: digit_not_x)
  then have sp: "split_chr CHR ''x'' (slice line (m_start m) (m_end m - 1)) = [CHR '' '' # w, h]"
    unfolding sl by (rule split_chr_one_sep)
  have "parse_video_size line = Inr (int_of_digits w, int_of_digits h)"
    unfolding parse_video_size_def
    using s(1)[unfolded line] sp
    by (simp add: Let_def index_or_raise_def py_int_digits[OF w] py_int_digits[OF h])
  then show ?thesis unfolding line .
qed

lemma parse_video_size_no_match:
  "re_search re_size line = None \<Longrightarrow> parse_video_size line = Inl (size_error line)"
  by (simp add: parse_video_size_def)

lemma parse_video_size_error:
  "parse_video_size line = Inl e \<Longrightarrow> e = size_error line"
  unfolding parse_video_size_def Let_def
  by (auto split: option.splits sum.splits)

text \<open>
  Claim C7, as stated, fails for a size token that ends the line: the line is a video
  line for the detection pattern, yet \<open>parse_video_size\<close> raises the I/O error, because its
  own pattern asks for a space before the token and a comma or a space after it.
\<close>

theorem parse_video_size_unterminated:
  "contains '' Video: '' '' Video: 12x34'' \<and> re_search re_dims '' Video: 12x34'' \<noteq> None
   \<and> parse_video_size '' Video: 12x34'' = Inl (size_error '' Video: 12x34'')"
  by code_simp

text \<open>
  Claim C7, amended. If the leftmost match of the size pattern \<open>" [0-9]*x[0-9]*(,| )"\<close> in
  the line is a token \<open>WxH\<close> with non-empty digit strings \<open>W\<close> and \<open>H\<close> of at most 4300
  digits each (the most that \<open>int\<close> converts), preceded by a space and followed by a comma
  or a space, \<open>parse_video_size\<close> returns the pair of the two integers, whichever
  terminator is used. If the size pattern matches nowhere the I/O error carrying the line
  is raised, and the function raises no other error.
\<close>

theorem parse_video_size_token:
  "(w \<noteq> [] \<and> (\<forall>c \<in> set w. is_digit c) \<and> length w \<le> 4300
      \<and> h \<noteq> [] \<and> (\<forall>c \<in> set h. is_digit c) \<and> length h \<le> 4300
      \<and> (t = CHR '','' \<or> t = CHR '' '')
      \<and> re_search re_size (pre @ '' '' @ w @ ''x'' @ h @ t # post) = Some m
      \<and> m_start m = length pre
     \<longrightarrow> parse_video_size (pre @ '' '' @ w @ ''x'' @ h @ t # post)
           = Inr (int_of_digits w, int_of_digits h))
   \<and> (re_search re_size line = None \<longrightarrow> parse_video_size line = Inl (size_error line))
   \<and> (\<forall>e. parse_video_size line = Inl e \<longrightarrow> e = size_error line)"
  using parse_video_size_at_token[of w h t pre post m] parse_video_size_no_match[of line]
    parse_video_size_error[of line]
  by blast

theorem parse_video_size_token_witness:
  "parse_video_size '' Video: h264, 1280x720, 25 fps'' = Inr (1280, 720)
   \<and> parse_video_size '' Video: h264, 1280x720 [SAR 1:1]'' = Inr (1280, 720)
   \<and> parse_video_size '' Video: none'' = Inl (size_error '' Video: none'')"
proof -
  have d: "\<forall>c \<in> set ''1280''. is_digit c" "\<forall>c \<in> set ''720''. is_digit c"
    "''1280'' \<noteq> []" "''720'' \<noteq> []" "length ''1280'' \<le> 4300" "length ''720'' \<le> 4300"
    by (simp_all add: is_digit_def)
  have v: "int_of_digits ''1280'' = 1280" "int_of_digits ''720'' = 720"
    by code_simp+
  have s1: "re_search re_size ('' Video: h264,'' @ '' '' @ ''1280'' @ ''x'' @ ''720'' @ CHR '','' # '' 25 fps'')
              = Some \<lparr>m_start = 13, m_end = 23, m_groups = ['','']\<rparr>"
    by code_simp
  have s2: "re_search re_size ('' Video: h264,'' @ '' '' @ ''1280'' @ ''x'' @ ''720'' @ CHR '' '' # ''[SAR 1:1]'')
              = Some \<lparr>m_start = 13, m_end = 23, m_groups = ['' '']\<rparr>"
    by code_simp
  have s3: "re_search re_size '' Video: none'' = None"
    by code_simp
  have l: "length '' Video: h264,'' = 13" by simp
  have "parse_video_size ('' Video: h264,'' @ '' '' @ ''1280'' @ ''x'' @ ''720'' @ CHR '','' # '' 25 fps'')
          = Inr (int_of_digits ''1280'', int_of_digits ''720'')"
    using parse_video_size_token[of "''1280''" "''720''" "CHR '',''" "'' Video: h264,''" "'' 25 fps''"
            "\<lparr>m_start = 13, m_end = 23, m_groups = ['','']\<rparr>"] d s1 l
    by simp
  then have 1: "parse_video_size '' Video: h264, 1280x720, 25 fps'' = Inr (1280, 720)"
    unfolding v by simp
  have "parse_video_size ('' Video: h264,'' @ '' '' @ ''1280'' @ ''x'' @ ''720'' @ CHR '' '' # ''[SAR 1:1]'')
          = Inr (int_of_digits ''1280'', int_of_digits ''720'')"
    using parse_video_size_token[of "''1280''" "''720''" "CHR '' ''" "'' Video: h264,''" "''[SAR 1:1]''"
            "\<lparr>m_start = 13, m_end = 23, m_groups = ['' '']\<rparr>"] d s2 l
    by simp
  then have 2: "parse_video_size '' Video: h264, 1280x720 [SAR 1:1]'' = Inr (1280, 720)"
    unfolding v by simp
  have 3: "parse_video_size '' Video: none'' = Inl (size_error '' Video: none'')"
    using parse_video_size_token[of _ _ _ _ _ _ "'' Video: none''"] s3 by blast
  show ?thesis using 1 2 3 by (intro conjI)
qed

lemma matches_trailing_int:
  assumes "(gs, rest) \<in> set (matches re_trailing_int s)"
  shows "\<exists>n. 1 \<le> n \<and> n \<le> length (takeWhile (\<lambda>c. c \<in> set digits) s) \<and> rest = drop n s
             \<and> (rest = [] \<or> rest = [CHR 0x0A])"
  using assms unfolding re_trailing_int_def
  by (auto split: if_splits)

lemma re_match_at_trailing_int:
  assumes "re_match_at re_trailing_int i s = Some m"
  shows "\<exists>n. 1 \<le> n \<and> n \<le> length (takeWhile (\<lambda>c. c \<in> set digits) s)
             \<and> m_start m = i \<and> m_end m = i + n"
proof -
  from assms obtain gs rest ms where
    ms: "matches re_trailing_int s = (gs, rest) # ms"
    and m: "m = \<lparr>m_start = i, m_end = i + (length s - length rest), m_groups = gs\<rparr>"
    by (auto simp: re_match_at_def split: list.splits)
  from ms have "(gs, rest) \<in> set (matches re_trailing_int s)" by simp
  from matches_trailing_int[OF this] obtain n where
    n: "1 \<le> n" "n \<le> length (takeWhile (\<lambda>c. c \<in> set digits) s)" "rest = drop n s" by blast
  have "length (takeWhile (\<lambda>c. c \<in> set digits) s) \<le> length s" by (rule length_takeWhile_le)
  with n have "length s - length rest = n" by simp
  with m n show ?thesis by simp
qed

lemma take_takeWhile_digits:
  assumes "1 \<le> n" "n \<le> length (takeWhile (\<lambda>c. c \<in> set digits) s)"
  shows "take n s \<noteq> []" "\<forall>c \<in> set (take n s). is_digit c"
proof -
  let ?tw = "takeWhile (\<lambda>c. c \<in> set digits) s"
  have e: "take n s = take n ?tw"
    using assms(2) by (metis append_eq_conv_conj takeWhile_dropWhile_id take_all take_append diff_is_0_eq' take_0 append_Nil2)
  show "take n s \<noteq> []" using assms unfolding e by auto
  have "set (take n ?tw) \<subseteq> set ?tw" by (rule set_take_subset)
  then show "\<forall>c \<in> set (take n s). is_digit c"
    unfolding e using set_takeWhileD[of _ "\<lambda>c. c \<in> set digits" s]
    by (auto simp: is_digit_digits)
qed

lemma trailing_int_digits:
  assumes "re_search re_trailing_int line = Some m"
  shows "slice line (m_start m) (m_end m) \<noteq> []"
    "\<forall>c \<in> set (slice line (m_start m) (m_end m)). is_digit c"
proof -
  from re_search_from_found[OF assms[unfolded re_search_def]] obtain k where
    k: "m_start m = 0 + k" "re_match_at re_trailing_int (0 + k) (drop k line) = Some m" by blast
  from re_match_at_trailing_int[OF k(2)] obtain n where
    n: "1 \<le> n" "n \<le> length (takeWhile (\<lambda>c. c \<in> set digits) (drop k line))"
       "m_end m = 0 + k + n" by blast
  have s: "slice line (m_start m) (m_end m) = take n (drop k line)"
    using k(1) n(3) by (simp add: slice_def)
  show "slice line (m_start m) (m_end m) \<noteq> []"
    unfolding s by (rule take_takeWhile_digits(1)[OF n(1,2)])
  show "\<forall>c \<in> set (slice line (m_start m) (m_end m)). is_digit c"
    unfolding s by (rule take_takeWhile_digits(2)[OF n(1,2)])
qed

lemma parse_rotation_default:
  assumes "\<forall>l \<in> set lines. contains ''rotate          :'' l \<longrightarrow> re_search re_trailing_int l = None"
  shows "parse_rotation lines = Inr 0"
proof -
  have "filter (\<lambda>l. contains ''rotate          :'' l \<and> re_search re_trailing_int l \<noteq> None) lines = []"
    using assms by (auto simp: filter_empty_conv)
  then show ?thesis unfolding parse_rotation_def by simp
qed

lemma parse_rotation_first:
  assumes f: "filter (\<lambda>l. contains ''rotate          :'' l \<and> re_search re_trailing_int l \<noteq> None) lines
                = l # ls"
    and m: "re_search re_trailing_int l = Some m"
  shows "length (slice l (m_start m) (m_end m)) \<le> 4300
           \<Longrightarrow> parse_rotation lines = Inr (int_of_digits (slice l (m_start m) (m_end m)))"
    and "4300 < length (slice l (m_start m) (m_end m))
           \<Longrightarrow> parse_rotation lines = Inl (rotation_error (l # ls))"
proof -
  note d = trailing_int_digits[OF m]
  show "parse_rotation lines = Inr (int_of_digits (slice l (m_start m) (m_end m)))"
    if "length (slice l (m_start m) (m_end m)) \<le> 4300"
    unfolding parse_rotation_def f using m py_int_digits(1)[OF d that] by simp
  show "parse_rotation lines = Inl (rotation_error (l # ls))"
    if "4300 < length (slice l (m_start m) (m_end m))"
    unfolding parse_rotation_def f using m py_int_too_long(1)[OF d that] by simp
qed

lemma length_takeWhile_stops:
  "\<exists>c \<in> set xs. \<not> P c \<Longrightarrow> length (takeWhile P xs) < length xs"
  by (induction xs) auto

lemma matches_PlusCls_all:
  assumes "ds \<noteq> []" "\<forall>c \<in> set ds. c \<in> set cl"
  shows "\<exists>ms. matches (PlusCls cl) ds = ([], []) # ms"
proof -
  have tw: "takeWhile (\<lambda>c. c \<in> set cl) ds = ds" using assms by simp
  have l: "Suc 0 \<le> length ds" using assms(1) by (cases ds) simp_all
  then have "rev [1 ..< Suc (length ds)] = length ds # rev [1 ..< length ds]" by simp
  then show ?thesis using l by (simp add: tw del: upt_Suc)
qed

lemma re_search_trailing_digits:
  assumes ds: "ds \<noteq> []" "\<forall>c \<in> set ds. is_digit c"
    and pre: "pre \<noteq> [] \<longrightarrow> \<not> is_digit (last pre)"
  shows "re_search_from re_trailing_int i (pre @ ds)
           = Some \<lparr>m_start = i + length pre, m_end = i + length pre + length ds, m_groups = []\<rparr>"
  using pre
proof (induction pre arbitrary: i)
  case Nil
  have "\<forall>c \<in> set ds. c \<in> set digits" using ds(2) by (simp add: is_digit_digits)
  from matches_PlusCls_all[OF ds(1) this] obtain ms where
    p: "matches (PlusCls digits) ds = ([], []) # ms" by blast
  have e: "matches Eol [] = [([], [])]" by simp
  have "\<exists>r. matches re_trailing_int ds = ([], []) # r"
    unfolding re_trailing_int_def using p by simp
  then have "re_match_at re_trailing_int i ds
               = Some \<lparr>m_start = i, m_end = i + length ds, m_groups = []\<rparr>"
    by (auto simp: re_match_at_def)
  then show ?case using ds(1) by (cases ds) simp_all
next
  case (Cons p ps)
  define s where "s = (p # ps) @ ds"
  have nd: "\<exists>c \<in> set (p # ps). \<not> c \<in> set digits"
    using Cons.prems by (metis is_digit_digits last_in_set list.distinct(1))
  have tw: "length (takeWhile (\<lambda>c. c \<in> set digits) s) < length (p # ps)"
  proof -
    from nd obtain c where c: "c \<in> set (p # ps)" "\<not> c \<in> set digits" by blast
    have "takeWhile (\<lambda>c. c \<in> set digits) s = takeWhile (\<lambda>c. c \<in> set digits) (p # ps)"
      unfolding s_def
      using takeWhile_append1[of c "p # ps" "\<lambda>c. c \<in> set digits" ds] c by blast
    moreover have "length (takeWhile (\<lambda>c. c \<in> set digits) (p # ps)) < length (p # ps)"
      using nd by (rule length_takeWhile_stops)
    ultimately show ?thesis by simp
  qed
  have "matches re_trailing_int s = []"
  proof (rule ccontr)
    assume "matches re_trailing_int s \<noteq> []"
    then obtain gs rest where "(gs, rest) \<in> set (matches re_trailing_int s)"
      by (cases "matches re_trailing_int s") auto
    from matches_trailing_int[OF this] obtain n where
      n: "n \<le> length (takeWhile (\<lambda>c. c \<in> set digits) s)" "rest = drop n s"
         "rest = [] \<or> rest = [CHR 0x0A]" by blast
    from n(1) tw have "n < length (p # ps)" by simp
    then have "length (drop n s) \<ge> 1 + length ds" unfolding s_def by simp
    moreover have "1 \<le> length ds" using ds(1) by (cases ds) simp_all
    ultimately have "2 \<le> length rest" using n(2) by simp
    with n(3) show False by auto
  qed
  then have none: "re_match_at re_trailing_int i (p # ps @ ds) = None"
    unfolding s_def by (simp add: re_match_at_def)
  have "ps \<noteq> [] \<longrightarrow> \<not> is_digit (last ps)" using Cons.prems by auto
  from Cons.IH[OF this, of "Suc i"] none show ?case by simp
qed

text \<open>
  Claim C3, as stated, fails for a marker line without a trailing integer: the line is
  filtered out with the lines that lack the marker, and the result is rotation 0, not an
  I/O error.
\<close>

theorem parse_rotation_unparsable_marker:
  "contains ''rotate          :'' ''    rotate          : abc''
   \<and> re_search re_trailing_int ''    rotate          : abc'' = None
   \<and> parse_rotation [''    rotate          : abc''] = Inr 0"
  by code_simp

text \<open>
  Claim C3, amended. If no line contains the rotation marker the result is rotation 0; a
  marker line that does not end in an integer is passed over like a line without the
  marker, so the result is rotation 0 when no marker line ends in an integer. Otherwise
  the first marker line that ends in an integer decides: if its trailing integer has at
  most 4300 digits (the most that \<open>int\<close> converts) the result is that integer, and if it
  has more, extraction fails with the I/O error that carries the text of the marker lines.
\<close>

theorem parse_rotation_spec:
  "((\<forall>l \<in> set lines. \<not> contains ''rotate          :'' l) \<longrightarrow> parse_rotation lines = Inr 0)
   \<and> ((\<forall>l \<in> set lines. contains ''rotate          :'' l \<longrightarrow> re_search re_trailing_int l = None)
         \<longrightarrow> parse_rotation lines = Inr 0)
   \<and> (filter (\<lambda>l. contains ''rotate          :'' l \<and> re_search re_trailing_int l \<noteq> None) lines = l # ls
        \<and> re_search re_trailing_int l = Some m
        \<and> length (slice l (m_start m) (m_end m)) \<le> 4300
         \<longrightarrow> parse_rotation lines = Inr (int_of_digits (slice l (m_start m) (m_end m))))
   \<and> (filter (\<lambda>l. contains ''rotate          :'' l \<and> re_search re_trailing_int l \<noteq> None) lines = l # ls
        \<and> re_search re_trailing_int l = Some m
        \<and> 4300 < length (slice l (m_start m) (m_end m))
         \<longrightarrow> parse_rotation lines = Inl (rotation_error (l # ls)))"
  using parse_rotation_default[of lines] parse_rotation_first[of lines l ls m] by blast

theorem parse_rotation_spec_witness:
  "parse_rotation [''  Duration: 00:00:01.00''] = Inr 0
   \<and> parse_rotation [''    rotate          : 90 deg''] = Inr 0
   \<and> parse_rotation [''    rotate          : 90''] = Inr 90
   \<and> parse_rotation [''    rotate          : '' @ replicate 4301 CHR ''1'']
       = Inl (rotation_error [''    rotate          : '' @ replicate 4301 CHR ''1''])"
proof -
  have a: "\<forall>l \<in> set [''  Duration: 00:00:01.00'']. \<not> contains ''rotate          :'' l"
    by code_simp
  have b: "\<forall>l \<in> set [''    rotate          : 90 deg''].
             contains ''rotate          :'' l \<longrightarrow> re_search re_trailing_int l = None"
    by code_simp
  have 1: "parse_rotation [''  Duration: 00:00:01.00''] = Inr 0"
    using parse_rotation_spec[of "[''  Duration: 00:00:01.00'']"] a by blast
  have 2: "parse_rotation [''    rotate          : 90 deg''] = Inr 0"
    using parse_rotation_spec[of "[''    rotate          : 90 deg'']"] b by blast
  define m90 where "m90 = \<lparr>m_start = 22, m_end = 24, m_groups = []\<rparr>"
  have c: "re_search re_trailing_int ''    rotate          : 90'' = Some m90"
    unfolding m90_def by code_simp
  have c': "contains ''rotate          :'' ''    rotate          : 90''" by code_simp
  have f3: "filter (\<lambda>l. contains ''rotate          :'' l \<and> re_search re_trailing_int l \<noteq> None)
              [''    rotate          : 90''] = ''    rotate          : 90'' # []"
    using c c' by simp
  have s3: "slice ''    rotate          : 90'' (m_start m90) (m_end m90) = ''90''"
    by (simp add: m90_def slice_def)
  have v3: "int_of_digits ''90'' = 90" by code_simp
  have 3: "parse_rotation [''    rotate          : 90''] = Inr 90"
    using parse_rotation_spec[of "[''    rotate          : 90'']" "''    rotate          : 90''" "[]" m90]
      f3 c unfolding s3 v3 by simp
  define ds where "ds = replicate 4301 CHR ''1''"
  define long where "long = ''    rotate          : '' @ ds"
  define ml where "ml = \<lparr>m_start = 0 + length ''    rotate          : '',
                          m_end = 0 + length ''    rotate          : '' + length ds, m_groups = []\<rparr>"
  have dd: "ds \<noteq> []" "\<forall>c \<in> set ds. is_digit c"
    by (simp_all add: ds_def is_digit_def)
  have "''    rotate          : '' \<noteq> [] \<longrightarrow> \<not> is_digit (last ''    rotate          : '')"
    by (simp add: is_digit_def)
  from re_search_trailing_digits[OF dd this, of 0]
  have d: "re_search re_trailing_int long = Some ml"
    unfolding re_search_def long_def ml_def .
  have d': "contains ''rotate          :'' long" unfolding long_def by simp
  have f4: "filter (\<lambda>l. contains ''rotate          :'' l \<and> re_search re_trailing_int l \<noteq> None) [long]
              = long # []"
    using d d' by simp
  have s4: "slice long (m_start ml) (m_end ml) = ds"
    by (simp add: ml_def slice_def long_def)
  have l4: "4300 < length ds" by (simp add: ds_def)
  have 4: "parse_rotation [long] = Inl (rotation_error [long])"
    using parse_rotation_spec[of "[long]" long "[]" ml] f4 d l4 unfolding s4 by simp
  show ?thesis using 1 2 3 4 unfolding long_def ds_def by (intro conjI)
qed

end
